theory Spec2Isabelle
  imports Complex_Main "HOL-Library.Word" "HOL-Library.Char_ord" "HOL-Library.List_Lexorder"
    "HOL-Library.Multiset"
begin

unbundle bit_operations_syntax

section \<open>Errors\<close>

text \<open>
  Every exception that the modelled code can raise is a value of this type.
  \<^item> \<open>NotInitialized\<close>: the \<open>ValueError("Vectores no inicializados...")\<close> raised by the
    metrics of \<open>SemanticVectorSpace\<close> while \<open>V_O\<close> or \<open>V_C\<close> is \<open>None\<close>;
  \<^item> \<open>EmptyVocabulary\<close>: the \<open>ValueError("empty vocabulary; perhaps the documents only
    contain stop words")\<close> raised by the scikit-learn vectorizer when no document of the
    corpus yields a term;
  \<^item> \<open>InvalidParameter\<close>: the error of the vectorizer for \<open>max_features\<close> below 1,
    raised here when the vectorizer is fitted;
  \<^item> \<open>IndexError\<close>: a list read out of range;
  \<^item> \<open>UnicodeEncodeError\<close>: raised by \<open>str.encode('utf-8')\<close> on a string that holds a
    surrogate code point;
  \<^item> \<open>TypeError\<close>, \<open>ValueError\<close>, \<open>OtherError\<close>: the exceptions that come out of a call
    of \<open>json.dumps\<close> or \<open>str\<close>.
\<close>

datatype error = NotInitialized | EmptyVocabulary | InvalidParameter | IndexError
  | UnicodeEncodeError | TypeError | ValueError | OtherError

text \<open>
  Numbers: the floating-point values of the source (weights, distances, \<open>I_D\<close>, means
  and slopes) are real numbers here, its integers are natural numbers or integers.
\<close>

section \<open>Core: the lexical feature space (semantic\_vector\_space.py)\<close>

subsection \<open>The vectorizer as configured in \<open>SemanticVectorSpace.__init__\<close>\<close>

text \<open>
  \<open>TfidfVectorizer(max_features, ngram_range=(1, 2), min_df=1, lowercase=True,
  token_pattern=r'(?u)\b\w\w+\b')\<close>. Texts are ASCII strings: a word character is a
  letter, a digit or the underscore; characters outside ASCII are not part of the model.
\<close>

definition is_upper_char :: "char \<Rightarrow> bool" where
  "is_upper_char c = (65 \<le> (of_char c :: nat) \<and> (of_char c :: nat) \<le> 90)"

definition is_word_char :: "char \<Rightarrow> bool" where
  "is_word_char c =
     (let n = (of_char c :: nat)
      in (48 \<le> n \<and> n \<le> 57) \<or> (65 \<le> n \<and> n \<le> 90) \<or> n = 95 \<or> (97 \<le> n \<and> n \<le> 122))"

definition lower_char :: "char \<Rightarrow> char" where
  "lower_char c = (if is_upper_char c then char_of ((of_char c :: nat) + 32) else c)"

definition lower :: "string \<Rightarrow> string" where
  "lower s = map lower_char s"

text \<open>
  \<open>word_runs cur s\<close> scans \<open>s\<close> from the left and returns the maximal runs of word
  characters, \<open>cur\<close> being the run read so far. The token pattern
  \<open>\b\w\w+\b\<close> matches exactly the maximal runs of length at least 2.
\<close>

fun word_runs :: "string \<Rightarrow> string \<Rightarrow> string list" where
  "word_runs cur [] = (if cur = [] then [] else [cur])"
| "word_runs cur (c # cs) =
     (if is_word_char c then word_runs (cur @ [c]) cs
      else (if cur = [] then [] else [cur]) @ word_runs [] cs)"

definition tokenize :: "string \<Rightarrow> string list" where
  "tokenize s = filter (\<lambda>t. 2 \<le> length t) (word_runs [] s)"

text \<open>The n-grams for \<open>ngram_range=(1, 2)\<close>: the tokens, then the bigrams joined by a space.\<close>

definition word_ngrams :: "string list \<Rightarrow> string list" where
  "word_ngrams toks = toks @ map (\<lambda>(a, b). a @ '' '' @ b) (zip toks (tl toks))"

definition analyzer :: "string \<Rightarrow> string list" where
  "analyzer doc = word_ngrams (tokenize (lower doc))"

text \<open>
  The vocabulary of a corpus: its distinct terms in alphabetical order (the order of the
  columns after \<open>_sort_features\<close>).
\<close>

definition sorted_terms :: "string list list \<Rightarrow> string list" where
  "sorted_terms docs = sort (remdups (concat docs))"

text \<open>
  \<open>_limit_features\<close>: with \<open>min_df=1\<close> and \<open>max_df=1.0\<close> no term is pruned by
  document frequency; when there are more than \<open>limit\<close> terms the \<open>limit\<close> terms of
  highest total count are kept, in column order. numpy's \<open>argsort\<close> is modelled as a
  stable sort (a tie is won by the lower column).
\<close>

definition term_total :: "string list list \<Rightarrow> string \<Rightarrow> nat" where
  "term_total docs t = sum_list (map (\<lambda>d. count_list d t) docs)"

definition limit_features :: "nat \<Rightarrow> string list list \<Rightarrow> string list \<Rightarrow> string list" where
  "limit_features limit docs terms =
     (if length terms > limit
      then (let ranked = sort_key (\<lambda>i. - int (term_total docs (terms ! i))) [0..<length terms];
                kept = take limit ranked
            in map ((!) terms) (filter (\<lambda>i. i \<in> set kept) [0..<length terms]))
      else terms)"

definition document_frequency :: "string list list \<Rightarrow> string \<Rightarrow> nat" where
  "document_frequency docs t = length (filter (\<lambda>d. t \<in> set d) docs)"

text \<open>Smoothed inverse document frequency: \<open>ln ((1 + n) / (1 + df)) + 1\<close>.\<close>

definition idf :: "string list list \<Rightarrow> string \<Rightarrow> real" where
  "idf docs t = ln ((1 + real (length docs)) / (1 + real (document_frequency docs t))) + 1"

definition l2_norm :: "real list \<Rightarrow> real" where
  "l2_norm v = sqrt (sum_list (map (\<lambda>x. x * x) v))"

text \<open>\<open>normalize\<close>: a row of norm 0 is divided by 1, that is, left as it is.\<close>

definition normalize :: "real list \<Rightarrow> real list" where
  "normalize v = (let n = l2_norm v in map (\<lambda>x. x / (if n = 0 then 1 else n)) v)"

definition tfidf_row :: "string list list \<Rightarrow> string list \<Rightarrow> string list \<Rightarrow> real list" where
  "tfidf_row docs vocab d = normalize (map (\<lambda>t. real (count_list d t) * idf docs t) vocab)"

text \<open>
  \<open>vectorizer_fit_transform max_features corpus\<close>: the rows of
  \<open>self.vectorizer.fit_transform(corpus).toarray()\<close> with the feature names, or the error
  the vectorizer raises.
\<close>

definition vectorizer_fit_transform ::
  "int \<Rightarrow> string list \<Rightarrow> error + (real list list \<times> string list)" where
  "vectorizer_fit_transform max_features corpus =
     (if max_features < 1 then Inl InvalidParameter
      else (let docs = map analyzer corpus;
                terms = sorted_terms docs
            in if terms = [] then Inl EmptyVocabulary
               else (let vocab = limit_features (nat max_features) docs terms
                     in Inr (map (tfidf_row docs vocab) docs, vocab))))"

subsection \<open>\<open>SemanticVectorSpace\<close>\<close>

record SemanticVectorSpace =
  max_features :: int
  V_O :: "real list option"
  V_C :: "real list option"
  feature_names :: "string list option"

definition SemanticVectorSpace_init :: "int \<Rightarrow> SemanticVectorSpace" where
  "SemanticVectorSpace_init mf =
     \<lparr>max_features = mf, V_O = None, V_C = None, feature_names = None\<rparr>"

text \<open>
  \<open>fit_transform\<close> returns the updated object together with the pair of vectors; when the
  vectorizer raises, the object's fields are not assigned.
\<close>

definition fit_transform ::
  "SemanticVectorSpace \<Rightarrow> string \<Rightarrow> string
     \<Rightarrow> error + (SemanticVectorSpace \<times> real list \<times> real list)" where
  "fit_transform self text_origin text_control =
     (case vectorizer_fit_transform (max_features self) [text_origin, text_control] of
        Inl e \<Rightarrow> Inl e
      | Inr (vectors, names) \<Rightarrow>
          (let vo = vectors ! 0; vc = vectors ! 1
           in Inr (self\<lparr>V_O := Some vo, V_C := Some vc, feature_names := Some names\<rparr>, vo, vc)))"

text \<open>
  \<open>cosine_similarity([V_O], [V_C])[0][0]\<close>: both rows are normalised, then multiplied.
\<close>

definition dot :: "real list \<Rightarrow> real list \<Rightarrow> real" where
  "dot x y = sum_list (map (\<lambda>(a, b). a * b) (zip x y))"

definition cosine_similarity :: "real list \<Rightarrow> real list \<Rightarrow> real" where
  "cosine_similarity x y = dot (normalize x) (normalize y)"

definition cosine_distance :: "SemanticVectorSpace \<Rightarrow> error + real" where
  "cosine_distance self =
     (case (V_O self, V_C self) of
        (Some vo, Some vc) \<Rightarrow> Inr (1 - cosine_similarity vo vc)
      | _ \<Rightarrow> Inl NotInitialized)"

definition cosine_similarity_score :: "SemanticVectorSpace \<Rightarrow> error + real" where
  "cosine_similarity_score self =
     (case (V_O self, V_C self) of
        (Some vo, Some vc) \<Rightarrow> Inr (cosine_similarity vo vc)
      | _ \<Rightarrow> Inl NotInitialized)"

text \<open>
  \<open>scipy.stats.entropy(P, Q)\<close> normalises both arguments and sums \<open>p * ln (p / q)\<close>;
  all components are positive here, since \<open>epsilon\<close> is added to non-negative weights.
\<close>

definition to_distribution :: "real list \<Rightarrow> real list" where
  "to_distribution v = map (\<lambda>x. x / sum_list v) v"

definition scipy_entropy :: "real list \<Rightarrow> real list \<Rightarrow> real" where
  "scipy_entropy p q =
     sum_list (map (\<lambda>(a, b). a * ln (a / b)) (zip (to_distribution p) (to_distribution q)))"

definition kl_divergence :: "SemanticVectorSpace \<Rightarrow> error + real" where
  "kl_divergence self =
     (case (V_O self, V_C self) of
        (Some vo, Some vc) \<Rightarrow>
          (let epsilon = 1 / 10 ^ 10;
               P = map (\<lambda>x. x + epsilon) vo;
               Q = map (\<lambda>x. x + epsilon) vc
           in Inr (scipy_entropy (to_distribution P) (to_distribution Q)))
      | _ \<Rightarrow> Inl NotInitialized)"

record dimensionality =
  dim_V_O :: nat
  dim_V_C :: nat
  dim_intersection :: nat

definition active :: "real \<Rightarrow> bool" where
  "active x = (\<bar>x\<bar> > 1 / 10 ^ 6)"

definition dimensionality_intersection :: "SemanticVectorSpace \<Rightarrow> error + dimensionality" where
  "dimensionality_intersection self =
     (case (V_O self, V_C self) of
        (Some vo, Some vc) \<Rightarrow>
          Inr \<lparr>dim_V_O = length (filter active vo),
               dim_V_C = length (filter active vc),
               dim_intersection = length (filter (\<lambda>(a, b). active a \<and> active b) (zip vo vc))\<rparr>
      | _ \<Rightarrow> Inl NotInitialized)"

text \<open>
  \<open>get_top_features\<close>: the \<open>top_n\<close> largest components in decreasing order, those not
  above 0 dropped (\<open>argsort\<close> modelled as a stable sort).
\<close>

definition get_top_features ::
  "SemanticVectorSpace \<Rightarrow> real list \<Rightarrow> nat \<Rightarrow> (string \<times> real) list" where
  "get_top_features self v top_n =
     (case feature_names self of
        None \<Rightarrow> []
      | Some names \<Rightarrow>
          (let order = sort_key (\<lambda>i. v ! i) [0..<length v];
               top_indices = rev (if top_n = 0 then order
                                  else drop (length order - top_n) order)
           in map (\<lambda>i. (names ! i, v ! i)) (filter (\<lambda>i. v ! i > 0) top_indices)))"

record semantic_overlap =
  so_dimensionality :: dimensionality
  so_cosine_similarity :: real
  so_cosine_distance :: real
  so_kl_divergence :: real
  so_overlap_ratio :: real
  so_top_features_origin :: "(string \<times> real) list"
  so_top_features_control :: "(string \<times> real) list"

definition analyze_semantic_overlap :: "SemanticVectorSpace \<Rightarrow> error + semantic_overlap" where
  "analyze_semantic_overlap self =
     (case (V_O self, V_C self) of
        (Some vo, Some vc) \<Rightarrow>
          (case dimensionality_intersection self of Inl e \<Rightarrow> Inl e | Inr dims \<Rightarrow>
          (case cosine_similarity_score self of Inl e \<Rightarrow> Inl e | Inr cos_sim \<Rightarrow>
          (case cosine_distance self of Inl e \<Rightarrow> Inl e | Inr cos_dist \<Rightarrow>
          (case kl_divergence self of Inl e \<Rightarrow> Inl e | Inr kl_div \<Rightarrow>
             Inr \<lparr>so_dimensionality = dims,
                  so_cosine_similarity = cos_sim,
                  so_cosine_distance = cos_dist,
                  so_kl_divergence = kl_div,
                  so_overlap_ratio =
                    (if dim_V_O dims > 0
                     then real (dim_intersection dims) / real (dim_V_O dims) else 0),
                  so_top_features_origin = get_top_features self vo 10,
                  so_top_features_control = get_top_features self vc 10\<rparr>))))
      | _ \<Rightarrow> Inl NotInitialized)"

section \<open>Core: the degradation index (degradation\_index.py)\<close>

record DegradationResult =
  I_D :: real
  dr_dim_V_O :: nat
  dr_dim_V_C :: nat
  dr_dim_intersection :: nat
  status :: string
  interference_detected :: bool
  degradation_percentage :: real
  overlap_ratio :: real

definition CRITICAL_THRESHOLD :: real where
  "CRITICAL_THRESHOLD = 4 / 10"

definition HIGH_THRESHOLD :: real where
  "HIGH_THRESHOLD = 25 / 100"

text \<open>
  The body of \<open>calculate\<close> after the dimensionalities have been read. The field
  \<open>overlap_ratio\<close> of the result holds the percentage, as in the source.
\<close>

definition degradation_of_dims :: "dimensionality \<Rightarrow> DegradationResult" where
  "degradation_of_dims dims =
     (let dim_O = dim_V_O dims;
          dim_C = dim_V_C dims;
          dim_int = dim_intersection dims;
          (i_d, ov) = (if dim_O = 0 then (0, 0)
                       else (1 - real dim_int / real dim_O, real dim_int / real dim_O));
          (st, det) = (if i_d \<ge> CRITICAL_THRESHOLD then (''INTERFERENCIA_CRITICA'', True)
                       else if i_d \<ge> HIGH_THRESHOLD then (''INTERFERENCIA_ALTA'', True)
                       else (''ESTABLE'', False))
      in \<lparr>I_D = i_d, dr_dim_V_O = dim_O, dr_dim_V_C = dim_C, dr_dim_intersection = dim_int,
          status = st, interference_detected = det,
          degradation_percentage = i_d * 100, overlap_ratio = ov * 100\<rparr>)"

text \<open>\<open>DegradationIndexCalculator.calculate\<close>, on a \<open>SemanticVectorSpace()\<close> of 1000 features.\<close>

definition calculate :: "string \<Rightarrow> string \<Rightarrow> error + DegradationResult" where
  "calculate text_origin text_control =
     (case fit_transform (SemanticVectorSpace_init 1000) text_origin text_control of
        Inl e \<Rightarrow> Inl e
      | Inr (vs_space, _, _) \<Rightarrow>
          (case dimensionality_intersection vs_space of
             Inl e \<Rightarrow> Inl e
           | Inr dims \<Rightarrow> Inr (degradation_of_dims dims)))"

section \<open>Sovereignty: the integrity chain (integrity\_chain.py)\<close>

subsection \<open>\<open>hashlib.sha256(...).hexdigest()\<close>\<close>

text \<open>
  SHA-256 (FIPS 180-4) of a byte string, rendered as 64 lowercase hexadecimal digits.
\<close>

definition K256 :: "32 word list" where
  "K256 =
    [0x428A2F98, 0x71374491, 0xB5C0FBCF, 0xE9B5DBA5, 0x3956C25B, 0x59F111F1, 0x923F82A4, 0xAB1C5ED5,
     0xD807AA98, 0x12835B01, 0x243185BE, 0x550C7DC3, 0x72BE5D74, 0x80DEB1FE, 0x9BDC06A7, 0xC19BF174,
     0xE49B69C1, 0xEFBE4786, 0x0FC19DC6, 0x240CA1CC, 0x2DE92C6F, 0x4A7484AA, 0x5CB0A9DC, 0x76F988DA,
     0x983E5152, 0xA831C66D, 0xB00327C8, 0xBF597FC7, 0xC6E00BF3, 0xD5A79147, 0x06CA6351, 0x14292967,
     0x27B70A85, 0x2E1B2138, 0x4D2C6DFC, 0x53380D13, 0x650A7354, 0x766A0ABB, 0x81C2C92E, 0x92722C85,
     0xA2BFE8A1, 0xA81A664B, 0xC24B8B70, 0xC76C51A3, 0xD192E819, 0xD6990624, 0xF40E3585, 0x106AA070,
     0x19A4C116, 0x1E376C08, 0x2748774C, 0x34B0BCB5, 0x391C0CB3, 0x4ED8AA4A, 0x5B9CCA4F, 0x682E6FF3,
     0x748F82EE, 0x78A5636F, 0x84C87814, 0x8CC70208, 0x90BEFFFA, 0xA4506CEB, 0xBEF9A3F7, 0xC67178F2]"

definition H256 :: "32 word list" where
  "H256 = [0x6A09E667, 0xBB67AE85, 0x3C6EF372, 0xA54FF53A, 0x510E527F, 0x9B05688C, 0x1F83D9AB, 0x5BE0CD19]"

definition rotr :: "nat \<Rightarrow> 32 word \<Rightarrow> 32 word" where
  "rotr n x = (drop_bit n x) OR (push_bit (32 - n) x)"

definition Ch :: "32 word \<Rightarrow> 32 word \<Rightarrow> 32 word \<Rightarrow> 32 word" where
  "Ch x y z = (x AND y) XOR (NOT x AND z)"

definition Maj :: "32 word \<Rightarrow> 32 word \<Rightarrow> 32 word \<Rightarrow> 32 word" where
  "Maj x y z = (x AND y) XOR (x AND z) XOR (y AND z)"

definition big_sigma0 :: "32 word \<Rightarrow> 32 word" where
  "big_sigma0 x = rotr 2 x XOR rotr 13 x XOR rotr 22 x"

definition big_sigma1 :: "32 word \<Rightarrow> 32 word" where
  "big_sigma1 x = rotr 6 x XOR rotr 11 x XOR rotr 25 x"

definition small_sigma0 :: "32 word \<Rightarrow> 32 word" where
  "small_sigma0 x = rotr 7 x XOR rotr 18 x XOR drop_bit 3 x"

definition small_sigma1 :: "32 word \<Rightarrow> 32 word" where
  "small_sigma1 x = rotr 17 x XOR rotr 19 x XOR drop_bit 10 x"

text \<open>Padding: the byte 0x80, zeros up to 56 modulo 64, the bit length in 8 bytes.\<close>

definition length_bytes :: "nat \<Rightarrow> 8 word list" where
  "length_bytes l = map (\<lambda>i. ucast (drop_bit (8 * (7 - i)) (of_nat (8 * l) :: 64 word))) [0..<8]"

definition sha256_pad :: "8 word list \<Rightarrow> 8 word list" where
  "sha256_pad bs =
     (let l = length bs;
          z = (119 - l mod 64) mod 64
      in bs @ [0x80] @ replicate z 0 @ length_bytes l)"

definition word_of_bytes :: "8 word list \<Rightarrow> 32 word" where
  "word_of_bytes bs = foldl (\<lambda>a b. push_bit 8 a OR ucast b) 0 bs"

definition block_words :: "8 word list \<Rightarrow> 32 word list" where
  "block_words blk = map (\<lambda>i. word_of_bytes (take 4 (drop (4 * i) blk))) [0..<16]"

fun schedule :: "nat \<Rightarrow> 32 word list \<Rightarrow> 32 word list" where
  "schedule 0 w = w"
| "schedule (Suc n) w =
     schedule n (w @ [small_sigma1 (w ! (length w - 2)) + w ! (length w - 7)
                      + small_sigma0 (w ! (length w - 15)) + w ! (length w - 16)])"

fun sha256_round :: "32 word list \<Rightarrow> 32 word \<times> 32 word \<Rightarrow> 32 word list" where
  "sha256_round [a, b, c, d, e, f, g, h] (k, w) =
     (let t1 = h + big_sigma1 e + Ch e f g + k + w;
          t2 = big_sigma0 a + Maj a b c
      in [t1 + t2, a, b, c, d + t1, e, f, g])"
| "sha256_round s _ = s"

definition sha256_compress :: "32 word list \<Rightarrow> 8 word list \<Rightarrow> 32 word list" where
  "sha256_compress hs blk =
     map (\<lambda>(x, y). x + y)
       (zip hs (foldl sha256_round hs (zip K256 (schedule 48 (block_words blk)))))"

definition sha256_blocks :: "8 word list \<Rightarrow> 8 word list list" where
  "sha256_blocks bs = map (\<lambda>i. take 64 (drop (64 * i) bs)) [0..<length bs div 64]"

definition hex_digit :: "32 word \<Rightarrow> char" where
  "hex_digit n = ''0123456789abcdef'' ! unat n"

definition hex_word :: "32 word \<Rightarrow> string" where
  "hex_word w = map (\<lambda>i. hex_digit (drop_bit (4 * (7 - i)) w AND 15)) [0..<8]"

definition sha256_hexdigest :: "8 word list \<Rightarrow> string" where
  "sha256_hexdigest bs =
     concat (map hex_word (foldl sha256_compress H256 (sha256_blocks (sha256_pad bs))))"

subsection \<open>Python values and the library calls of \<open>_serialize_data\<close>\<close>

text \<open>
  A Python \<open>str\<close> is the list of its code points, numbers below 0x110000; \<open>str_lit\<close>
  gives the \<open>str\<close> spelled by a literal of this theory. \<open>s.encode('utf-8')\<close> raises
  \<open>UnicodeEncodeError\<close> when \<open>s\<close> holds a surrogate code point, and returns the UTF-8
  bytes of \<open>s\<close> otherwise.
\<close>

type_synonym pystr = "nat list"

definition str_lit :: "string \<Rightarrow> pystr" where
  "str_lit s = map of_char s"

definition is_code_point :: "nat \<Rightarrow> bool" where
  "is_code_point c = (c < 0x110000)"

definition is_surrogate :: "nat \<Rightarrow> bool" where
  "is_surrogate c = (0xD800 \<le> c \<and> c \<le> 0xDFFF)"

text \<open>The UTF-8 code units of a code point, as numbers below 256.\<close>

definition utf8_units :: "nat \<Rightarrow> nat list" where
  "utf8_units c =
     (if c < 0x80 then [c]
      else if c < 0x800 then [0xC0 + c div 64, 0x80 + c mod 64]
      else if c < 0x10000
        then [0xE0 + c div 4096, 0x80 + (c div 64) mod 64, 0x80 + c mod 64]
      else [0xF0 + c div 262144, 0x80 + (c div 4096) mod 64,
            0x80 + (c div 64) mod 64, 0x80 + c mod 64])"

definition utf8_bytes :: "pystr \<Rightarrow> 8 word list" where
  "utf8_bytes s = map of_nat (concat (map utf8_units s))"

definition encode_utf8 :: "pystr \<Rightarrow> error + 8 word list" where
  "encode_utf8 s =
     (if list_ex is_surrogate s then Inl UnicodeEncodeError else Inr (utf8_bytes s))"

text \<open>
  The values the argument \<open>data: Any\<close> and a metadata dictionary can hold. A dictionary
  is the list of its items in insertion order; \<open>PyObject\<close> stands for an object of any
  other type.
\<close>

datatype pyfloat = Finite real | PosInf | NegInf | NaN

datatype pyval =
    PyNone
  | PyBool bool
  | PyInt int
  | PyFloat pyfloat
  | PyStr pystr
  | PyBytes "8 word list"
  | PyList "pyval list"
  | PyTuple "pyval list"
  | PyDict "(pyval \<times> pyval) list"
  | PyObject nat

type_synonym pydict = "(pyval \<times> pyval) list"

text \<open>
  \<open>_serialize_data\<close> makes three calls into the standard library. They are parameters of
  the model, each standing for the library function with whatever it returns or raises:
  \<^item> \<open>json_dumps d\<close> is \<open>json.dumps(d, sort_keys=True, ensure_ascii=False)\<close>: the JSON text
    of the dictionary \<open>d\<close> with the items of every dictionary in the order of their keys,
    or the exception of the call (a \<open>TypeError\<close> for keys that cannot be compared with
    each other or a value that JSON cannot hold, for instance);
  \<^item> \<open>bytes_decode b\<close> is \<open>b.decode('utf-8', errors='replace')\<close>, which does not raise;
  \<^item> \<open>str_of x\<close> is \<open>str(x)\<close>, or the exception of the call.
\<close>

record library =
  json_dumps :: "pydict \<Rightarrow> error + pystr"
  bytes_decode :: "8 word list \<Rightarrow> pystr"
  str_of :: "pyval \<Rightarrow> error + pystr"

subsection \<open>\<open>IntegrityChain\<close>\<close>

record IntegrityLink =
  data_hash :: pystr
  chain_hash :: pystr
  root_hash :: pystr
  cid :: pystr
  timestamp :: pystr
  metadata :: pydict

definition ROOT_HASH :: pystr where
  "ROOT_HASH = str_lit ''606a347f6e2502a23179c18e4a637ca15138aa2f04194c6e6a578f8d1f8d7287''"

definition CID :: pystr where
  "CID = str_lit ''bafybeihqz3x7k5t2m4n6p8r9s1v3w5y7a9c1e3g5i7k9m1o3q5s7u9w1y3''"

text \<open>\<open>_serialize_data\<close>, by the \<open>isinstance\<close> tests in their order.\<close>

fun serialize_data :: "library \<Rightarrow> pyval \<Rightarrow> error + pystr" where
  "serialize_data lib (PyDict d) = json_dumps lib d"
| "serialize_data lib (PyStr s) = Inr s"
| "serialize_data lib (PyBytes b) = Inr (bytes_decode lib b)"
| "serialize_data lib x = str_of lib x"

text \<open>\<open>hashlib.sha256(s.encode('utf-8')).hexdigest()\<close> of a \<open>str\<close>.\<close>

definition sha256_of_str :: "pystr \<Rightarrow> error + pystr" where
  "sha256_of_str s =
     (case encode_utf8 s of
        Inl e \<Rightarrow> Inl e
      | Inr bs \<Rightarrow> Inr (str_lit (sha256_hexdigest bs)))"

definition compute_data_hash :: "library \<Rightarrow> pyval \<Rightarrow> error + pystr" where
  "compute_data_hash lib d =
     (case serialize_data lib d of
        Inl e \<Rightarrow> Inl e
      | Inr data_str \<Rightarrow> sha256_of_str data_str)"

definition compute_chain_hash :: "library \<Rightarrow> pyval \<Rightarrow> error + pystr" where
  "compute_chain_hash lib d =
     (case serialize_data lib d of
        Inl e \<Rightarrow> Inl e
      | Inr data_str \<Rightarrow>
          (let chain_data = data_str @ str_lit ''||'' @ ROOT_HASH @ str_lit ''||'' @ CID
           in sha256_of_str chain_data))"

text \<open>\<open>d[k] = v\<close> on a dictionary: the value of an existing key is replaced in place.\<close>

fun dict_set :: "pydict \<Rightarrow> pyval \<Rightarrow> pyval \<Rightarrow> pydict" where
  "dict_set [] k v = [(k, v)]"
| "dict_set ((k', v') # kvs) k v =
     (if k' = k then (k, v) # kvs else (k', v') # dict_set kvs k v)"

text \<open>
  \<open>create_link\<close>; \<open>now\<close> is the text of \<open>datetime.utcnow().isoformat()\<close> at the call.
  The metadata is updated first, then the data hash and the chain hash are computed, and
  the first exception ends the call.
\<close>

definition create_link ::
  "library \<Rightarrow> pystr \<Rightarrow> pyval \<Rightarrow> pydict option \<Rightarrow> error + IntegrityLink" where
  "create_link lib now d md =
     (let md0 = (case md of None \<Rightarrow> [] | Some m \<Rightarrow> m);
          ts = now @ str_lit ''Z'';
          md1 = dict_set md0 (PyStr (str_lit ''created_at'')) (PyStr ts)
      in case compute_data_hash lib d of
           Inl e \<Rightarrow> Inl e
         | Inr dh \<Rightarrow>
             (case compute_chain_hash lib d of
                Inl e \<Rightarrow> Inl e
              | Inr ch \<Rightarrow>
                  Inr \<lparr>data_hash = dh, chain_hash = ch, root_hash = ROOT_HASH, cid = CID,
                       timestamp = ts, metadata = md1\<rparr>))"

definition verify_link :: "library \<Rightarrow> pyval \<Rightarrow> IntegrityLink \<Rightarrow> error + bool" where
  "verify_link lib d link =
     (if root_hash link \<noteq> ROOT_HASH then Inr False
      else if cid link \<noteq> CID then Inr False
      else (case compute_data_hash lib d of
              Inl e \<Rightarrow> Inl e
            | Inr computed_data_hash \<Rightarrow>
                (case compute_chain_hash lib d of
                   Inl e \<Rightarrow> Inl e
                 | Inr computed_chain_hash \<Rightarrow>
                     (let data_valid = (computed_data_hash = data_hash link);
                          chain_valid = (computed_chain_hash = chain_hash link)
                      in Inr (data_valid \<and> chain_valid)))))"

definition create_merkle_root :: "IntegrityLink list \<Rightarrow> error + pystr" where
  "create_merkle_root links =
     (if links = [] then Inr []
      else (let combined = concat (map chain_hash links)
            in sha256_of_str combined))"

section \<open>Audit: the degradation monitor (degradation\_monitor.py)\<close>

text \<open>
  An instant is a number of microseconds; a timestamp text
  \<open>datetime.utcnow().isoformat() + 'Z'\<close> is represented by the instant it denotes, which
  is what \<open>_parse_timestamp\<close> reads back from it.
\<close>

record InteractionLog =
  log_session_id :: string
  log_timestamp :: string
  log_prompt :: string
  log_response_origin :: string
  log_response_control :: string
  log_metadata :: pydict
  log_root_hash :: pystr
  log_session_hash :: string

text \<open>
  The \<open>metrics\<close> dictionary of a result (entropies and copies of the dimensions) and the
  running statistics of the monitor are read by nothing below and are left out.
\<close>

record MonitoringResult =
  mr_session_id :: string
  mr_timestamp :: int
  degradation :: DegradationResult
  intervention_detected :: bool
  severity_level :: string
  alert_triggered :: bool

definition Monitor_CRITICAL_THRESHOLD :: real where
  "Monitor_CRITICAL_THRESHOLD = 4 / 10"

definition Monitor_HIGH_THRESHOLD :: real where
  "Monitor_HIGH_THRESHOLD = 25 / 100"

definition Monitor_MEDIUM_THRESHOLD :: real where
  "Monitor_MEDIUM_THRESHOLD = 15 / 100"

definition determine_severity :: "real \<Rightarrow> string" where
  "determine_severity i_d =
     (if i_d \<ge> Monitor_CRITICAL_THRESHOLD then ''CRITICAL''
      else if i_d \<ge> Monitor_HIGH_THRESHOLD then ''HIGH''
      else if i_d \<ge> Monitor_MEDIUM_THRESHOLD then ''MEDIUM''
      else ''LOW'')"

text \<open>\<open>monitor_interaction\<close>; \<open>now\<close> is the instant \<open>datetime.utcnow()\<close> returns.\<close>

definition monitor_interaction ::
  "int \<Rightarrow> string \<Rightarrow> string \<Rightarrow> string \<Rightarrow> string \<Rightarrow> error + MonitoringResult" where
  "monitor_interaction now session_id prompt response_origin response_control =
     (case calculate response_origin response_control of
        Inl e \<Rightarrow> Inl e
      | Inr deg \<Rightarrow>
          Inr \<lparr>mr_session_id = session_id,
               mr_timestamp = now,
               degradation = deg,
               intervention_detected = (I_D deg \<ge> Monitor_CRITICAL_THRESHOLD),
               severity_level = determine_severity (I_D deg),
               alert_triggered = (I_D deg \<ge> Monitor_MEDIUM_THRESHOLD)\<rparr>)"

definition monitor_log :: "int \<Rightarrow> InteractionLog \<Rightarrow> error + MonitoringResult" where
  "monitor_log now entry =
     monitor_interaction now (log_session_id entry) (log_prompt entry)
       (log_response_origin entry) (log_response_control entry)"

text \<open>
  \<open>batch_monitor\<close>; \<open>clock i\<close> is the instant read at the \<open>i\<close>-th call of
  \<open>monitor_interaction\<close>. The first log that raises ends the loop.
\<close>

fun batch_monitor_from ::
  "(nat \<Rightarrow> int) \<Rightarrow> nat \<Rightarrow> InteractionLog list \<Rightarrow> error + MonitoringResult list" where
  "batch_monitor_from clock i [] = Inr []"
| "batch_monitor_from clock i (entry # logs) =
     (case monitor_log (clock i) entry of
        Inl e \<Rightarrow> Inl e
      | Inr r \<Rightarrow>
          (case batch_monitor_from clock (Suc i) logs of
             Inl e \<Rightarrow> Inl e
           | Inr rs \<Rightarrow> Inr (r # rs)))"

definition batch_monitor ::
  "(nat \<Rightarrow> int) \<Rightarrow> InteractionLog list \<Rightarrow> error + MonitoringResult list" where
  "batch_monitor clock logs = batch_monitor_from clock 0 logs"

section \<open>Audit: the temporal analysis (temporal\_analysis.py)\<close>

text \<open>A period bound is the text \<open>N/A\<close> or a timestamp.\<close>

datatype period_bound = NA | At int

record TemporalMetrics =
  period_start :: period_bound
  period_end :: period_bound
  total_interactions :: nat
  mean_I_D :: real
  std_I_D :: real
  trend_slope :: real
  trend_direction :: string
  interventions_count :: nat
  thermal_death_risk :: string

definition STABLE_THRESHOLD :: real where
  "STABLE_THRESHOLD = 5 / 100"

definition MODERATE_THRESHOLD :: real where
  "MODERATE_THRESHOLD = 15 / 100"

text \<open>\<open>statistics.mean\<close> and \<open>statistics.stdev\<close> (the sample deviation).\<close>

definition mean :: "real list \<Rightarrow> real" where
  "mean xs = sum_list xs / real (length xs)"

definition stdev :: "real list \<Rightarrow> real" where
  "stdev xs = sqrt (sum_list (map (\<lambda>x. (x - mean xs) ^ 2) xs) / real (length xs - 1))"

text \<open>
  \<open>_calculate_trend_slope\<close>. \<open>timestamps[0]\<close> raises on an empty list and
  \<open>I_D_values[i]\<close> raises when there are more timestamps than values.
\<close>

definition calculate_trend_slope :: "real list \<Rightarrow> int list \<Rightarrow> error + real" where
  "calculate_trend_slope I_D_values timestamps =
     (if length I_D_values < 2 then Inr 0
      else if timestamps = [] \<or> length timestamps > length I_D_values then Inl IndexError
      else (let base_time = hd timestamps;
                days = map (\<lambda>ts. real_of_int (ts - base_time) / 10 ^ 6 / 86400) timestamps;
                mean_x = mean days;
                mean_y = mean I_D_values;
                numerator = sum_list (map (\<lambda>(x, y). (x - mean_x) * (y - mean_y))
                                        (zip days I_D_values));
                denominator = sum_list (map (\<lambda>x. (x - mean_x) ^ 2) days)
            in if denominator = 0 then Inr 0 else Inr (numerator / denominator)))"

definition determine_trend_direction :: "real \<Rightarrow> string" where
  "determine_trend_direction slope =
     (if \<bar>slope\<bar> < STABLE_THRESHOLD then ''STABLE''
      else if slope > 0 then ''INCREASING''
      else ''DECREASING'')"

definition assess_thermal_death_risk :: "real \<Rightarrow> real \<Rightarrow> real \<Rightarrow> string" where
  "assess_thermal_death_risk mean_i_d slope interventions_rate =
     (let high_baseline = (mean_i_d \<ge> 35 / 100);
          increasing_trend = (slope > MODERATE_THRESHOLD);
          high_interventions = (interventions_rate > 5 / 10);
          risk_score = sum_list (map of_bool [high_baseline, increasing_trend, high_interventions])
      in if risk_score \<ge> (3 :: nat) then ''CRITICAL''
         else if risk_score = 2 then ''HIGH''
         else if risk_score = 1 then ''MEDIUM''
         else ''LOW'')"

definition analyze_period ::
  "(nat \<Rightarrow> int) \<Rightarrow> InteractionLog list \<Rightarrow> error + TemporalMetrics" where
  "analyze_period clock logs =
     (if logs = []
      then Inr \<lparr>period_start = NA, period_end = NA, total_interactions = 0,
                mean_I_D = 0, std_I_D = 0, trend_slope = 0, trend_direction = ''STABLE'',
                interventions_count = 0, thermal_death_risk = ''LOW''\<rparr>
      else (case batch_monitor clock logs of
              Inl e \<Rightarrow> Inl e
            | Inr results \<Rightarrow>
                (let I_D_values = map (\<lambda>r. I_D (degradation r)) results;
                     timestamps = map mr_timestamp results;
                     m = mean I_D_values;
                     sd = (if length I_D_values > 1 then stdev I_D_values else 0)
                 in case calculate_trend_slope I_D_values timestamps of
                      Inl e \<Rightarrow> Inl e
                    | Inr slope \<Rightarrow>
                        (let direction = determine_trend_direction slope;
                             count = length (filter intervention_detected results);
                             rate = (if results \<noteq> [] then real count / real (length results)
                                     else 0);
                             risk = assess_thermal_death_risk m slope rate
                         in Inr \<lparr>period_start = At (hd timestamps),
                                  period_end = At (last timestamps),
                                  total_interactions = length logs,
                                  mean_I_D = m, std_I_D = sd, trend_slope = slope,
                                  trend_direction = direction,
                                  interventions_count = count,
                                  thermal_death_risk = risk\<rparr>))))"

section \<open>Core: the truth invariance validator (truth\_invariance.py)\<close>

record InvarianceResult =
  gradient_magnitude :: real
  is_invariant :: bool
  perturbation_responses :: "string list"
  stability_score :: real
  bias_detected :: bool
  mean_distance :: real
  std_distance :: real

record gradient_data =
  gd_gradient_magnitude :: real
  gd_mean_distance :: real
  gd_std_distance :: real

definition INVARIANCE_THRESHOLD :: real where
  "INVARIANCE_THRESHOLD = 15 / 100"

text \<open>\<open>np.mean\<close> is \<open>mean\<close>; \<open>np.std\<close> is the population deviation.\<close>

definition np_std :: "real list \<Rightarrow> real" where
  "np_std xs = sqrt (mean (map (\<lambda>x. (x - mean xs) ^ 2) xs))"

text \<open>
  The loop of \<open>calculate_gradient\<close> over the perturbed responses, on the one
  \<open>vs_space\<close> it shares: an iteration whose \<open>try\<close> block raises appends nothing.
\<close>

fun gradient_loop ::
  "SemanticVectorSpace \<Rightarrow> string \<Rightarrow> string list \<Rightarrow> real list \<Rightarrow> real list" where
  "gradient_loop vs_space original_response [] distances = distances"
| "gradient_loop vs_space original_response (perturbed # rest) distances =
     (case fit_transform vs_space original_response perturbed of
        Inl e \<Rightarrow> gradient_loop vs_space original_response rest distances
      | Inr (vs_space', _, _) \<Rightarrow>
          (case cosine_distance vs_space' of
             Inl e \<Rightarrow> gradient_loop vs_space' original_response rest distances
           | Inr d \<Rightarrow> gradient_loop vs_space' original_response rest (distances @ [d])))"

text \<open>
  The \<open>try\<close> block of one iteration run on a fresh space: the distance it appends, or
  the exception that makes the loop skip the perturbed response.
\<close>

definition comparison :: "string \<Rightarrow> string \<Rightarrow> error + real" where
  "comparison original_response perturbed =
     (case fit_transform (SemanticVectorSpace_init 1000) original_response perturbed of
        Inl e \<Rightarrow> Inl e
      | Inr (vs_space, _, _) \<Rightarrow> cosine_distance vs_space)"

definition zero_gradient :: gradient_data where
  "zero_gradient = \<lparr>gd_gradient_magnitude = 0, gd_mean_distance = 0, gd_std_distance = 0\<rparr>"

definition calculate_gradient :: "string \<Rightarrow> string list \<Rightarrow> gradient_data" where
  "calculate_gradient original_response perturbed_responses =
     (if perturbed_responses = [] then zero_gradient
      else (let distances =
                  gradient_loop (SemanticVectorSpace_init 1000) original_response
                    perturbed_responses []
            in if distances = [] then zero_gradient
               else \<lparr>gd_gradient_magnitude = mean distances,
                     gd_mean_distance = mean distances,
                     gd_std_distance = np_std distances\<rparr>))"

definition validate_invariance :: "string \<Rightarrow> string list \<Rightarrow> InvarianceResult" where
  "validate_invariance original_response perturbed_responses =
     (let gd = calculate_gradient original_response perturbed_responses;
          gradient = gd_gradient_magnitude gd
      in \<lparr>gradient_magnitude = gradient,
          is_invariant = (gradient < INVARIANCE_THRESHOLD),
          perturbation_responses = perturbed_responses,
          stability_score = max 0 (1 - gradient / INVARIANCE_THRESHOLD),
          bias_detected = (gradient \<ge> INVARIANCE_THRESHOLD),
          mean_distance = gd_mean_distance gd,
          std_distance = gd_std_distance gd\<rparr>)"

section \<open>Properties of the degradation index\<close>

subsection \<open>Dimensionalities\<close>

lemma intersection_le:
  "length (filter (\<lambda>(a, b). P a \<and> Q b) (zip xs ys)) \<le> length (filter P xs)"
proof (induction xs arbitrary: ys)
  case Nil
  then show ?case by simp
next
  case (Cons x xs)
  show ?case
  proof (cases ys)
    case Nil
    then show ?thesis by simp
  next
    case (Cons y ys')
    with Cons.IH [of ys'] show ?thesis by auto
  qed
qed

lemma dims_bound:
  assumes "dimensionality_intersection vs = Inr dims"
  shows "dim_intersection dims \<le> dim_V_O dims"
proof -
  from assms obtain vo vc where "V_O vs = Some vo" "V_C vs = Some vc"
    and d: "dims = \<lparr>dim_V_O = length (filter active vo),
               dim_V_C = length (filter active vc),
               dim_intersection = length (filter (\<lambda>(a, b). active a \<and> active b) (zip vo vc))\<rparr>"
    by (auto simp: dimensionality_intersection_def split: option.splits)
  show ?thesis unfolding d using intersection_le [of active active vo vc] by simp
qed

lemma calculate_Inr:
  assumes "calculate a b = Inr r"
  obtains dims where "r = degradation_of_dims dims" "dim_intersection dims \<le> dim_V_O dims"
  using assms dims_bound
  by (auto simp: calculate_def split: sum.splits prod.splits)

lemma degradation_I_D:
  "I_D (degradation_of_dims dims) =
     (if dim_V_O dims = 0 then 0 else 1 - real (dim_intersection dims) / real (dim_V_O dims))"
  by (simp add: degradation_of_dims_def Let_def split: prod.splits)

lemma degradation_dims:
  "dr_dim_V_O (degradation_of_dims dims) = dim_V_O dims"
  "dr_dim_intersection (degradation_of_dims dims) = dim_intersection dims"
  "dr_dim_V_C (degradation_of_dims dims) = dim_V_C dims"
  by (simp_all add: degradation_of_dims_def Let_def split: prod.splits)

lemma degradation_status:
  "status (degradation_of_dims dims) =
     (if I_D (degradation_of_dims dims) \<ge> 4 / 10 then ''INTERFERENCIA_CRITICA''
      else if I_D (degradation_of_dims dims) \<ge> 25 / 100 then ''INTERFERENCIA_ALTA''
      else ''ESTABLE'')"
  by (simp add: degradation_of_dims_def Let_def CRITICAL_THRESHOLD_def HIGH_THRESHOLD_def
        split: prod.splits)

lemma degradation_flag:
  "interference_detected (degradation_of_dims dims)
   = (I_D (degradation_of_dims dims) \<ge> 25 / 100)"
  by (auto simp add: degradation_of_dims_def Let_def CRITICAL_THRESHOLD_def HIGH_THRESHOLD_def
        split: prod.splits)

subsection \<open>Which components of a tf-idf row are active\<close>

text \<open>
  A component of a row is the count of its term times the term's idf, divided by the norm
  of the row. The idf lies between 1 and \<open>1 + n\<close> for a corpus of \<open>n\<close> documents, so for
  a document of fewer than \<open>10^6 / (1 + n)\<close> terms the component exceeds the activation
  threshold exactly when the term occurs in the document.
\<close>

lemma document_frequency_le: "document_frequency docs t \<le> length docs"
  by (simp add: document_frequency_def)

lemma idf_bounds: "1 \<le> idf docs t" "idf docs t \<le> 1 + real (length docs)"
proof -
  let ?x = "(1 + real (length docs)) / (1 + real (document_frequency docs t))"
  have x1: "1 \<le> ?x" using document_frequency_le [of docs t] by simp
  then show "1 \<le> idf docs t" by (simp add: idf_def)
  have "?x \<le> 1 + real (length docs)"
    by (simp add: divide_le_eq mult_le_cancel_left1 add_nonneg_nonneg)
  moreover have "ln ?x \<le> ?x - 1" using x1 by (intro ln_le_minus_one) simp
  ultimately show "idf docs t \<le> 1 + real (length docs)" by (simp add: idf_def)
qed

lemma sum_squares_nonneg: "0 \<le> sum_list (map (\<lambda>x. x * x) (v :: real list))"
  by (induction v) simp_all

lemma l2_norm_le_sum_abs: "l2_norm v \<le> sum_list (map abs v)"
proof (induction v)
  case Nil
  then show ?case by (simp add: l2_norm_def)
next
  case (Cons x v)
  have "sqrt (x * x + sum_list (map (\<lambda>x. x * x) v))
        \<le> sqrt (x * x) + sqrt (sum_list (map (\<lambda>x. x * x) v))"
    by (rule sqrt_add_le_add_sqrt) (simp_all add: sum_squares_nonneg)
  with Cons show ?case by (simp add: l2_norm_def)
qed

lemma l2_norm_ge_member:
  assumes "x \<in> set v"
  shows "\<bar>x\<bar> \<le> l2_norm v"
proof -
  have "x * x \<le> sum_list (map (\<lambda>x. x * x) v)"
    using assms
  proof (induction v)
    case Nil
    then show ?case by simp
  next
    case (Cons y v)
    have "0 \<le> y * y" by simp
    with Cons sum_squares_nonneg [of v] show ?case by (auto intro: add_increasing)
  qed
  then have "sqrt (x * x) \<le> l2_norm v"
    unfolding l2_norm_def by (rule real_sqrt_le_mono)
  then show ?thesis by simp
qed

lemma weights_sum_bound:
  "sum_list (map abs (map (\<lambda>t. real (count_list d t) * idf docs t) vocab))
   \<le> (1 + real (length docs)) * real (sum_list (map (count_list d) vocab))"
proof (induction vocab)
  case Nil
  then show ?case by simp
next
  case (Cons t vocab)
  have "\<bar>real (count_list d t) * idf docs t\<bar> = real (count_list d t) * idf docs t"
    using idf_bounds(1) [of docs t] by simp
  also have "\<dots> \<le> real (count_list d t) * (1 + real (length docs))"
    using idf_bounds(2) [of docs t] by (intro mult_left_mono) simp_all
  finally show ?case using Cons by (simp add: algebra_simps)
qed

lemma active_tfidf_entry:
  assumes bound: "(1 + real (length docs)) * real (sum_list (map (count_list d) vocab)) < 10 ^ 6"
    and t: "t \<in> set vocab"
  shows "active (real (count_list d t) * idf docs t
                  / (let n = l2_norm (map (\<lambda>t. real (count_list d t) * idf docs t) vocab)
                     in if n = 0 then 1 else n))
         \<longleftrightarrow> t \<in> set d"
proof (cases "t \<in> set d")
  case False
  then have "count_list d t = 0" by (simp add: count_list_0_iff)
  with False show ?thesis by (simp add: active_def Let_def)
next
  case True
  let ?w = "map (\<lambda>t. real (count_list d t) * idf docs t) vocab"
  let ?x = "real (count_list d t) * idf docs t"
  from True have "count_list d t \<noteq> 0" by (simp add: count_list_0_iff)
  then have c: "1 \<le> real (count_list d t)" by simp
  have x1: "1 \<le> ?x"
    using c idf_bounds(1) [of docs t] by (metis mult_mono' mult_1 zero_le_one)
  have "?x \<in> set ?w" using t by auto
  then have "\<bar>?x\<bar> \<le> l2_norm ?w" by (rule l2_norm_ge_member)
  with x1 have n1: "1 \<le> l2_norm ?w" and xn: "?x \<le> l2_norm ?w" by simp_all
  have "l2_norm ?w \<le> sum_list (map abs ?w)" by (rule l2_norm_le_sum_abs)
  also have "\<dots> \<le> (1 + real (length docs)) * real (sum_list (map (count_list d) vocab))"
    by (rule weights_sum_bound)
  also note bound
  finally have nb: "l2_norm ?w < 10 ^ 6" .
  have "1 / 10 ^ 6 < 1 / l2_norm ?w"
    using n1 nb by (intro divide_strict_left_mono) simp_all
  also have "\<dots> \<le> ?x / l2_norm ?w"
    using x1 n1 by (intro divide_right_mono) simp_all
  finally have "1 / 10 ^ 6 < ?x / l2_norm ?w" .
  moreover have "0 \<le> ?x / l2_norm ?w" using x1 n1 by simp
  ultimately show ?thesis using True n1 by (simp add: active_def Let_def)
qed

lemma tfidf_row_map:
  "tfidf_row docs vocab d
   = map (\<lambda>t. real (count_list d t) * idf docs t
              / (let n = l2_norm (map (\<lambda>t. real (count_list d t) * idf docs t) vocab)
                 in if n = 0 then 1 else n)) vocab"
  by (simp add: tfidf_row_def normalize_def Let_def comp_def)

lemma effective_dimension:
  assumes "(1 + real (length docs)) * real (sum_list (map (count_list d) vocab)) < 10 ^ 6"
  shows "length (filter active (tfidf_row docs vocab d))
         = length (filter (\<lambda>t. t \<in> set d) vocab)"
proof -
  have "filter (active \<circ> (\<lambda>t. real (count_list d t) * idf docs t
              / (let n = l2_norm (map (\<lambda>t. real (count_list d t) * idf docs t) vocab)
                 in if n = 0 then 1 else n))) vocab = filter (\<lambda>t. t \<in> set d) vocab"
    by (rule filter_cong [OF refl]) (simp add: active_tfidf_entry [OF assms])
  then show ?thesis
    by (simp add: tfidf_row_map filter_map del: map_map)
qed

lemma intersection_dimension:
  assumes "(1 + real (length docs)) * real (sum_list (map (count_list d) vocab)) < 10 ^ 6"
    and "(1 + real (length docs)) * real (sum_list (map (count_list d') vocab)) < 10 ^ 6"
  shows "length (filter (\<lambda>(x, y). active x \<and> active y)
                   (zip (tfidf_row docs vocab d) (tfidf_row docs vocab d')))
         = length (filter (\<lambda>t. t \<in> set d \<and> t \<in> set d') vocab)"
proof -
  let ?g = "\<lambda>d t. real (count_list d t) * idf docs t
              / (let n = l2_norm (map (\<lambda>t. real (count_list d t) * idf docs t) vocab)
                 in if n = 0 then 1 else n)"
  have z: "zip (tfidf_row docs vocab d) (tfidf_row docs vocab d')
           = map (\<lambda>t. (?g d t, ?g d' t)) vocab"
    unfolding tfidf_row_map by (simp add: zip_map_map zip_same_conv_map)
  have "filter ((\<lambda>(x, y). active x \<and> active y) \<circ> (\<lambda>t. (?g d t, ?g d' t))) vocab
        = filter (\<lambda>t. t \<in> set d \<and> t \<in> set d') vocab"
    by (rule filter_cong [OF refl])
       (simp add: active_tfidf_entry [OF assms(1)] active_tfidf_entry [OF assms(2)])
  then show ?thesis
    unfolding z by (simp add: filter_map del: map_map)
qed

text \<open>
  \<open>calculate\<close> on two texts of at most 1000 distinct terms and fewer than 333333 term
  occurrences each: the dimensionalities count the vocabulary terms of each text.
\<close>

lemma calculate_small:
  assumes da: "analyzer a = da" and db: "analyzer b = db"
    and v: "sorted_terms [da, db] = vocab" and ne: "vocab \<noteq> []"
    and len: "length vocab \<le> 1000"
    and ba: "3 * real (sum_list (map (count_list da) vocab)) < 10 ^ 6"
    and bb: "3 * real (sum_list (map (count_list db) vocab)) < 10 ^ 6"
  shows "calculate a b =
     Inr (degradation_of_dims
            \<lparr>dim_V_O = length (filter (\<lambda>t. t \<in> set da) vocab),
             dim_V_C = length (filter (\<lambda>t. t \<in> set db) vocab),
             dim_intersection = length (filter (\<lambda>t. t \<in> set da \<and> t \<in> set db) vocab)\<rparr>)"
proof -
  have ba': "(1 + real (length [da, db])) * real (sum_list (map (count_list da) vocab)) < 10 ^ 6"
    using ba by simp
  have bb': "(1 + real (length [da, db])) * real (sum_list (map (count_list db) vocab)) < 10 ^ 6"
    using bb by simp
  have lim: "limit_features 1000 [da, db] vocab = vocab"
    using len by (simp add: limit_features_def)
  show ?thesis
    using ne effective_dimension [OF ba'] effective_dimension [OF bb']
      intersection_dimension [OF ba' bb']
    by (simp add: calculate_def fit_transform_def SemanticVectorSpace_init_def
          vectorizer_fit_transform_def da db v lim dimensionality_intersection_def Let_def)
qed

subsection \<open>Worked examples\<close>

lemma analyzer_empty: "analyzer [] = []"
  by code_simp

lemma analyzer_a: "analyzer ''a'' = []"
  by code_simp

lemma analyzer_ab: "analyzer ''ab'' = [''ab'']"
  by code_simp

lemma sorted_terms_ab: "sorted_terms [[''ab''], [''ab'']] = [''ab'']"
  by code_simp

lemma sorted_terms_empty_ab: "sorted_terms [[], [''ab'']] = [''ab'']"
  by code_simp

lemma calculate_ab:
  "calculate ''ab'' ''ab'' =
     Inr \<lparr>I_D = 0, dr_dim_V_O = 1, dr_dim_V_C = 1, dr_dim_intersection = 1,
          status = ''ESTABLE'', interference_detected = False,
          degradation_percentage = 0, overlap_ratio = 100\<rparr>"
  by (subst calculate_small [OF analyzer_ab analyzer_ab sorted_terms_ab])
     (simp_all add: degradation_of_dims_def CRITICAL_THRESHOLD_def HIGH_THRESHOLD_def)

text \<open>An origin without a token and a control with one: the branch \<open>dim_O == 0\<close>.\<close>

lemma calculate_empty_origin:
  "calculate [] ''ab'' =
     Inr \<lparr>I_D = 0, dr_dim_V_O = 0, dr_dim_V_C = 1, dr_dim_intersection = 0,
          status = ''ESTABLE'', interference_detected = False,
          degradation_percentage = 0, overlap_ratio = 0\<rparr>"
  by (subst calculate_small [OF analyzer_empty analyzer_ab sorted_terms_empty_ab])
     (simp_all add: degradation_of_dims_def CRITICAL_THRESHOLD_def HIGH_THRESHOLD_def)

lemma analyzer_origin: "analyzer ''Python es un lenguaje de programacion'' =
  [''python'', ''es'', ''un'', ''lenguaje'', ''de'', ''programacion'',
   ''python es'', ''es un'', ''un lenguaje'', ''lenguaje de'', ''de programacion'']"
  by code_simp

lemma analyzer_control: "analyzer ''Python es un lenguaje.'' =
  [''python'', ''es'', ''un'', ''lenguaje'', ''python es'', ''es un'', ''un lenguaje'']"
  by code_simp

lemma sorted_terms_alta: "sorted_terms
  [[''python'', ''es'', ''un'', ''lenguaje'', ''de'', ''programacion'',
   ''python es'', ''es un'', ''un lenguaje'', ''lenguaje de'', ''de programacion''],
   [''python'', ''es'', ''un'', ''lenguaje'', ''python es'', ''es un'', ''un lenguaje'']]
  = [''de'', ''de programacion'', ''es'', ''es un'', ''lenguaje'', ''lenguaje de'',
     ''programacion'', ''python'', ''python es'', ''un'', ''un lenguaje'']"
  by code_simp

lemma calculate_alta:
  "calculate ''Python es un lenguaje de programacion'' ''Python es un lenguaje.'' =
     Inr \<lparr>I_D = 4 / 11, dr_dim_V_O = 11, dr_dim_V_C = 7, dr_dim_intersection = 7,
          status = ''INTERFERENCIA_ALTA'', interference_detected = True,
          degradation_percentage = 400 / 11, overlap_ratio = 700 / 11\<rparr>"
  by (subst calculate_small [OF analyzer_origin analyzer_control sorted_terms_alta])
     (simp_all add: degradation_of_dims_def CRITICAL_THRESHOLD_def HIGH_THRESHOLD_def)

lemma analyzer_invarianza: "analyzer ''La invarianza es un principio'' =
  [''la'', ''invarianza'', ''es'', ''un'', ''principio'',
   ''la invarianza'', ''invarianza es'', ''es un'', ''un principio'']"
  by code_simp

lemma analyzer_opinar: "analyzer ''Prefiero no opinar'' =
  [''prefiero'', ''no'', ''opinar'', ''prefiero no'', ''no opinar'']"
  by code_simp

lemma sorted_terms_critica: "sorted_terms
  [[''la'', ''invarianza'', ''es'', ''un'', ''principio'',
   ''la invarianza'', ''invarianza es'', ''es un'', ''un principio''],
   [''prefiero'', ''no'', ''opinar'', ''prefiero no'', ''no opinar'']]
  = [''es'', ''es un'', ''invarianza'', ''invarianza es'', ''la'', ''la invarianza'',
     ''no'', ''no opinar'', ''opinar'', ''prefiero'', ''prefiero no'', ''principio'',
     ''un'', ''un principio'']"
  by code_simp

lemma calculate_critica:
  "calculate ''La invarianza es un principio'' ''Prefiero no opinar'' =
     Inr \<lparr>I_D = 1, dr_dim_V_O = 9, dr_dim_V_C = 5, dr_dim_intersection = 0,
          status = ''INTERFERENCIA_CRITICA'', interference_detected = True,
          degradation_percentage = 100, overlap_ratio = 0\<rparr>"
  by (subst calculate_small [OF analyzer_invarianza analyzer_opinar sorted_terms_critica])
     (simp_all add: degradation_of_dims_def CRITICAL_THRESHOLD_def HIGH_THRESHOLD_def)

text \<open>
  \<open>calculate\<close> raises exactly on two texts without a token, where the vectorizer finds an
  empty vocabulary; on every other pair of texts it returns a result.
\<close>

lemma sorted_terms_empty_iff: "sorted_terms [da, db] = [] \<longleftrightarrow> da = [] \<and> db = []"
proof -
  have "sorted_terms [da, db] = [] \<longleftrightarrow> set (sorted_terms [da, db]) = {}"
    by simp
  also have "\<dots> \<longleftrightarrow> da = [] \<and> db = []"
    by (simp add: sorted_terms_def)
  finally show ?thesis .
qed

lemma calculate_raises_iff:
  "calculate a b = Inl e \<longleftrightarrow> e = EmptyVocabulary \<and> analyzer a = [] \<and> analyzer b = []"
  by (auto simp: calculate_def fit_transform_def SemanticVectorSpace_init_def
        vectorizer_fit_transform_def sorted_terms_empty_iff dimensionality_intersection_def
        Let_def split: sum.splits prod.splits)

lemma calculate_returns:
  assumes "analyzer a \<noteq> [] \<or> analyzer b \<noteq> []"
  shows "\<exists>r. calculate a b = Inr r"
proof (cases "calculate a b")
  case (Inl e)
  with assms show ?thesis by (simp add: calculate_raises_iff)
next
  case (Inr r)
  then show ?thesis by blast
qed

subsection \<open>The claims on \<open>calculate\<close>\<close>

text \<open>
  Claim C1. The claim: on texts with no token of length at least 2, \<open>calculate\<close> returns
  a neutral result with \<open>I_D = 0\<close> rather than raising. The code does not: for two empty
  texts the vectorizer finds an empty vocabulary and raises, \<open>calculate\<close> has no handler,
  and the call ends in that exception.
\<close>

theorem C1_empty_texts_raise: "calculate [] [] = Inl EmptyVocabulary"
  by (simp add: calculate_def fit_transform_def SemanticVectorSpace_init_def
        vectorizer_fit_transform_def analyzer_empty sorted_terms_def)

text \<open>
  Claim C2. Every result that \<open>calculate\<close> returns has \<open>0 \<le> I_D \<le> 1\<close>, and
  \<open>I_D = 0\<close> exactly when the intersection dimension equals the origin's dimension
  (the case of an origin of dimension 0 included); the intersection dimension never
  exceeds the origin's.
\<close>

theorem C2_I_D_range:
  assumes "calculate text_origin text_control = Inr r"
  shows "0 \<le> I_D r \<and> I_D r \<le> 1
         \<and> (I_D r = 0 \<longleftrightarrow> dr_dim_intersection r = dr_dim_V_O r)
         \<and> dr_dim_intersection r \<le> dr_dim_V_O r"
proof -
  from assms obtain dims where r: "r = degradation_of_dims dims"
    and le: "dim_intersection dims \<le> dim_V_O dims"
    by (rule calculate_Inr)
  show ?thesis
  proof (cases "dim_V_O dims = 0")
    case True
    with le show ?thesis by (simp add: r degradation_I_D degradation_dims)
  next
    case False
    then have pos: "0 < real (dim_V_O dims)" by simp
    have q: "real (dim_intersection dims) / real (dim_V_O dims) \<le> 1"
      using le pos by simp
    have q0: "0 \<le> real (dim_intersection dims) / real (dim_V_O dims)" by simp
    have e: "(real (dim_intersection dims) / real (dim_V_O dims) = 1)
              \<longleftrightarrow> dim_intersection dims = dim_V_O dims"
      using pos by auto
    show ?thesis using False le q q0 e
      by (simp add: r degradation_I_D degradation_dims)
  qed
qed

theorem C2_I_D_range_witness:
  "(let r = \<lparr>I_D = 4 / 11, dr_dim_V_O = 11, dr_dim_V_C = 7, dr_dim_intersection = 7,
             status = ''INTERFERENCIA_ALTA'', interference_detected = True,
             degradation_percentage = 400 / 11, overlap_ratio = 700 / 11\<rparr>
    in calculate ''Python es un lenguaje de programacion'' ''Python es un lenguaje.'' = Inr r
       \<and> 0 \<le> I_D r \<and> I_D r \<le> 1
       \<and> (I_D r = 0 \<longleftrightarrow> dr_dim_intersection r = dr_dim_V_O r)
       \<and> dr_dim_intersection r \<le> dr_dim_V_O r)"
  using C2_I_D_range [OF calculate_alta] calculate_alta by (simp add: Let_def)

text \<open>
  Claim C3. The status of every returned result is a function of \<open>I_D\<close> and the two
  thresholds: the critical status for \<open>I_D \<ge> 0.40\<close>, the high status for
  \<open>0.25 \<le> I_D < 0.40\<close>, the stable status below 0.25, and nothing else.
\<close>

theorem C3_status_thresholds:
  assumes "calculate text_origin text_control = Inr r"
  shows "status r =
           (if I_D r \<ge> 40 / 100 then ''INTERFERENCIA_CRITICA''
            else if I_D r \<ge> 25 / 100 then ''INTERFERENCIA_ALTA''
            else ''ESTABLE'')"
proof -
  from assms obtain dims where r: "r = degradation_of_dims dims"
    by (rule calculate_Inr)
  show ?thesis unfolding r using degradation_status [of dims] by simp
qed

theorem C3_status_thresholds_witness:
  "(let r = \<lparr>I_D = 1, dr_dim_V_O = 9, dr_dim_V_C = 5, dr_dim_intersection = 0,
             status = ''INTERFERENCIA_CRITICA'', interference_detected = True,
             degradation_percentage = 100, overlap_ratio = 0\<rparr>
    in calculate ''La invarianza es un principio'' ''Prefiero no opinar'' = Inr r
       \<and> status r =
           (if I_D r \<ge> 40 / 100 then ''INTERFERENCIA_CRITICA''
            else if I_D r \<ge> 25 / 100 then ''INTERFERENCIA_ALTA''
            else ''ESTABLE''))"
  using C3_status_thresholds [OF calculate_critica] calculate_critica by (simp add: Let_def)

text \<open>
  Claim C10. In every returned result the flag \<open>interference_detected\<close> is true exactly
  when \<open>I_D \<ge> 0.25\<close>, which is exactly when the status is not the stable one.
\<close>

theorem C10_interference_flag:
  assumes "calculate text_origin text_control = Inr r"
  shows "(interference_detected r \<longleftrightarrow> I_D r \<ge> 25 / 100)
         \<and> (interference_detected r \<longleftrightarrow> status r \<noteq> ''ESTABLE'')"
proof -
  from assms obtain dims where r: "r = degradation_of_dims dims"
    by (rule calculate_Inr)
  have f: "interference_detected r \<longleftrightarrow> I_D r \<ge> 25 / 100"
    unfolding r by (rule degradation_flag)
  have s: "status r \<noteq> ''ESTABLE'' \<longleftrightarrow> I_D r \<ge> 25 / 100"
    unfolding r by (simp add: degradation_status)
  from f s show ?thesis by simp
qed

theorem C10_interference_flag_witness:
  "(let r = \<lparr>I_D = 0, dr_dim_V_O = 0, dr_dim_V_C = 1, dr_dim_intersection = 0,
             status = ''ESTABLE'', interference_detected = False,
             degradation_percentage = 0, overlap_ratio = 0\<rparr>
    in calculate [] ''ab'' = Inr r
       \<and> (interference_detected r \<longleftrightarrow> I_D r \<ge> 25 / 100)
       \<and> (interference_detected r \<longleftrightarrow> status r \<noteq> ''ESTABLE''))"
  using C10_interference_flag [OF calculate_empty_origin] calculate_empty_origin
  by (simp add: Let_def)

section \<open>Properties of the feature space\<close>

text \<open>
  Claim C6. On a freshly constructed \<open>SemanticVectorSpace\<close>, whatever its
  \<open>max_features\<close>, each of the five metric operations fails with the error for vectors
  that are not initialised.
\<close>

theorem C6_metrics_not_initialized:
  "cosine_distance (SemanticVectorSpace_init mf) = Inl NotInitialized
   \<and> cosine_similarity_score (SemanticVectorSpace_init mf) = Inl NotInitialized
   \<and> kl_divergence (SemanticVectorSpace_init mf) = Inl NotInitialized
   \<and> dimensionality_intersection (SemanticVectorSpace_init mf) = Inl NotInitialized
   \<and> analyze_semantic_overlap (SemanticVectorSpace_init mf) = Inl NotInitialized"
  by (simp add: SemanticVectorSpace_init_def cosine_distance_def cosine_similarity_score_def
        kl_divergence_def dimensionality_intersection_def analyze_semantic_overlap_def)

section \<open>Properties of the integrity chain\<close>

subsection \<open>The hash function\<close>

text \<open>The digests of the three-byte messages \<open>abc\<close> and \<open>acb\<close>, as \<open>hashlib\<close> gives them.\<close>

lemma sha256_abc:
  "sha256_hexdigest [0x61, 0x62, 0x63]
   = ''ba7816bf8f01cfea414140de5dae2223b00361a396177a9cb410ff61f20015ad''"
  by code_simp

lemma sha256_acb:
  "sha256_hexdigest [0x61, 0x63, 0x62]
   = ''8e9766083b3bfc2003f791c9853941b0ea035d16379bfec16b72d376e272fa57''"
  by code_simp

subsection \<open>Strings and their UTF-8 encoding\<close>

lemma str_lit_Nil: "str_lit [] = []"
  by (simp add: str_lit_def)

lemma str_lit_Cons: "str_lit (c # s) = of_char c # str_lit s"
  by (simp add: str_lit_def)

lemma str_lit_below_256: "c \<in> set (str_lit s) \<Longrightarrow> c < 256"
  by (auto simp: str_lit_def)

lemma str_lit_inj: "str_lit s = str_lit t \<longleftrightarrow> s = t"
proof -
  have "inj (of_char :: char \<Rightarrow> nat)" by (rule injI) simp
  then show ?thesis unfolding str_lit_def by (rule inj_map_eq_map)
qed

lemma str_lit_no_surrogate: "\<not> list_ex is_surrogate (str_lit s)"
  using str_lit_below_256 [of _ s] by (fastforce simp: list_ex_iff is_surrogate_def)

lemma no_surrogate_append:
  "list_ex is_surrogate (s @ t) \<longleftrightarrow> list_ex is_surrogate s \<or> list_ex is_surrogate t"
  by (auto simp: list_ex_iff)

text \<open>The first code unit tells how many follow, so that no encoding begins another.\<close>

lemma div_mod_64_eq:
  "(a::nat) div 64 = b div 64 \<Longrightarrow> a mod 64 = b mod 64 \<Longrightarrow> a = b"
  by (metis div_mult_mod_eq)

lemma utf8_units_not_Nil: "utf8_units c \<noteq> []"
  by (simp add: utf8_units_def)

lemma hd_utf8_units:
  "c < 0x80 \<Longrightarrow> hd (utf8_units c) < 0x80"
  "0x80 \<le> c \<Longrightarrow> c < 0x800 \<Longrightarrow> 0xC0 \<le> hd (utf8_units c) \<and> hd (utf8_units c) < 0xE0"
  "0x800 \<le> c \<Longrightarrow> c < 0x10000 \<Longrightarrow> 0xE0 \<le> hd (utf8_units c) \<and> hd (utf8_units c) < 0xF0"
  "0x10000 \<le> c \<Longrightarrow> 0xF0 \<le> hd (utf8_units c)"
  by (simp_all add: utf8_units_def less_mult_imp_div_less)

lemma utf8_units_prefix:
  assumes "c < 0x110000" "c' < 0x110000" "utf8_units c @ r = utf8_units c' @ r'"
  shows "c = c'"
proof -
  have "hd (utf8_units c @ r) = hd (utf8_units c' @ r')" using assms(3) by simp
  then have h: "hd (utf8_units c) = hd (utf8_units c')"
    by (simp add: utf8_units_not_Nil)
  consider "c < 0x80" | "0x80 \<le> c" "c < 0x800" | "0x800 \<le> c" "c < 0x10000" | "0x10000 \<le> c"
    by linarith
  then show ?thesis
  proof cases
    case 1
    then have "hd (utf8_units c') < 0x80" using hd_utf8_units(1) [of c] h by simp
    then have "c' < 0x80"
      using hd_utf8_units(2) [of c'] hd_utf8_units(3) [of c'] hd_utf8_units(4) [of c']
      by linarith
    with 1 assms(3) show ?thesis by (simp add: utf8_units_def)
  next
    case 2
    then have "0xC0 \<le> hd (utf8_units c') \<and> hd (utf8_units c') < 0xE0"
      using hd_utf8_units(2) [of c] h by simp
    then have c': "0x80 \<le> c'" "c' < 0x800"
      using hd_utf8_units(1) [of c'] hd_utf8_units(3) [of c'] hd_utf8_units(4) [of c']
      by linarith+
    with 2 assms(3) have "c div 64 = c' div 64" "c mod 64 = c' mod 64"
      by (simp_all add: utf8_units_def)
    then show ?thesis by (rule div_mod_64_eq)
  next
    case 3
    then have "0xE0 \<le> hd (utf8_units c') \<and> hd (utf8_units c') < 0xF0"
      using hd_utf8_units(3) [of c] h by simp
    then have c': "0x800 \<le> c'" "c' < 0x10000"
      using hd_utf8_units(1) [of c'] hd_utf8_units(2) [of c'] hd_utf8_units(4) [of c']
      by linarith+
    with 3 assms(3) have e: "c div 4096 = c' div 4096" "c div 64 mod 64 = c' div 64 mod 64"
      "c mod 64 = c' mod 64"
      by (simp_all add: utf8_units_def)
    from e(1) have "c div 64 div 64 = c' div 64 div 64" by (simp add: div_mult2_eq [symmetric])
    then have "c div 64 = c' div 64" using e(2) by (rule div_mod_64_eq)
    then show ?thesis using e(3) by (rule div_mod_64_eq)
  next
    case 4
    then have "0xF0 \<le> hd (utf8_units c')" using hd_utf8_units(4) [of c] h by simp
    then have c': "0x10000 \<le> c'"
      using hd_utf8_units(1) [of c'] hd_utf8_units(2) [of c'] hd_utf8_units(3) [of c']
      by linarith
    with 4 assms(3) have e: "c div 262144 = c' div 262144"
      "c div 4096 mod 64 = c' div 4096 mod 64" "c div 64 mod 64 = c' div 64 mod 64"
      "c mod 64 = c' mod 64"
      by (simp_all add: utf8_units_def)
    from e(1) have "c div 64 div 64 div 64 = c' div 64 div 64 div 64"
      by (simp add: div_mult2_eq [symmetric])
    moreover from e(2) have "c div 64 div 64 mod 64 = c' div 64 div 64 mod 64"
      by (simp add: div_mult2_eq [symmetric])
    ultimately have "c div 64 div 64 = c' div 64 div 64" by (rule div_mod_64_eq)
    then have "c div 64 = c' div 64" using e(3) by (rule div_mod_64_eq)
    then show ?thesis using e(4) by (rule div_mod_64_eq)
  qed
qed

lemma utf8_units_below_256: "c < 0x110000 \<Longrightarrow> u \<in> set (utf8_units c) \<Longrightarrow> u < 256"
  by (auto simp: utf8_units_def split: if_splits)

lemma concat_utf8_units_inj:
  assumes "list_all is_code_point s" "list_all is_code_point t"
    "concat (map utf8_units s) = concat (map utf8_units t)"
  shows "s = t"
  using assms
proof (induction s arbitrary: t)
  case Nil
  then show ?case by (cases t) (simp_all add: utf8_units_not_Nil)
next
  case (Cons c s)
  show ?case
  proof (cases t)
    case Nil
    with Cons.prems show ?thesis by (simp add: utf8_units_not_Nil)
  next
    case (Cons c' t')
    with Cons.prems have e: "utf8_units c @ concat (map utf8_units s)
        = utf8_units c' @ concat (map utf8_units t')"
      by simp
    from Cons Cons.prems have "c < 0x110000" "c' < 0x110000"
      by (simp_all add: is_code_point_def)
    then have "c = c'" using e by (rule utf8_units_prefix)
    with e Cons.IH [of t'] Cons Cons.prems show ?thesis by simp
  qed
qed

lemma map_byte_inj:
  assumes "\<forall>u\<in>set xs. u < 256" "\<forall>u\<in>set ys. u < 256"
    "map of_nat xs = (map of_nat ys :: 8 word list)"
  shows "xs = ys"
proof -
  have "map unat (map of_nat xs :: 8 word list) = xs" if "\<forall>u\<in>set xs. u < 256" for xs
    using that by (induction xs) (simp_all add: unat_of_nat)
  with assms show ?thesis by metis
qed

lemma utf8_bytes_inj:
  assumes "list_all is_code_point s" "list_all is_code_point t" "utf8_bytes s = utf8_bytes t"
  shows "s = t"
proof -
  have b: "\<forall>u\<in>set (concat (map utf8_units x)). u < 256" if "list_all is_code_point x" for x
    using that utf8_units_below_256 by (auto simp: list_all_iff is_code_point_def)
  from assms(3) have "concat (map utf8_units s) = concat (map utf8_units t)"
    unfolding utf8_bytes_def by (rule map_byte_inj [OF b [OF assms(1)] b [OF assms(2)]])
  with assms(1,2) show ?thesis by (rule concat_utf8_units_inj)
qed

lemma utf8_bytes_ascii: "\<forall>c\<in>set s. c < 0x80 \<Longrightarrow> utf8_bytes s = map of_nat s"
  by (induction s) (simp_all add: utf8_bytes_def utf8_units_def)

subsection \<open>The shape of a digest\<close>

lemma length_sha256_round: "length (sha256_round s kw) = length s"
  by (cases "(s, kw)" rule: sha256_round.cases) (simp_all add: Let_def)

lemma length_foldl_sha256_round: "length (foldl sha256_round s kws) = length s"
  by (induction kws arbitrary: s) (simp_all add: length_sha256_round)

lemma length_sha256_compress: "length (sha256_compress hs blk) = length hs"
  by (simp add: sha256_compress_def length_foldl_sha256_round)

lemma length_foldl_sha256_compress: "length (foldl sha256_compress hs blks) = length hs"
  by (induction blks arbitrary: hs) (simp_all add: length_sha256_compress)

lemma length_concat_hex_word: "length (concat (map hex_word ws)) = 8 * length ws"
  by (induction ws) (simp_all add: hex_word_def)

lemma length_sha256_hexdigest: "length (sha256_hexdigest bs) = 64"
  by (simp add: sha256_hexdigest_def length_concat_hex_word length_foldl_sha256_compress
      H256_def)

lemma hex_digit_ascii: "(of_char (hex_digit (w AND 15)) :: nat) < 0x80"
proof -
  have "w AND 15 \<le> 15" by (rule word_and_le1)
  then have "unat (w AND 15) < 16" by (simp add: word_le_nat_alt)
  then have "hex_digit (w AND 15) \<in> set ''0123456789abcdef''"
    unfolding hex_digit_def by (intro nth_mem) simp
  then show ?thesis by auto
qed

lemma sha256_hexdigest_ascii: "c \<in> set (str_lit (sha256_hexdigest bs)) \<Longrightarrow> c < 0x80"
  by (auto simp: str_lit_def sha256_hexdigest_def hex_word_def hex_digit_ascii)

subsection \<open>When \<open>create_link\<close> returns\<close>

lemma anchors_no_surrogate:
  "list_ex is_surrogate (s @ str_lit ''||'' @ ROOT_HASH @ str_lit ''||'' @ CID)
   \<longleftrightarrow> list_ex is_surrogate s"
  by (simp add: no_surrogate_append str_lit_no_surrogate ROOT_HASH_def CID_def)

lemma sha256_of_str_Inr:
  "\<not> list_ex is_surrogate s \<Longrightarrow> sha256_of_str s = Inr (str_lit (sha256_hexdigest (utf8_bytes s)))"
  by (simp add: sha256_of_str_def encode_utf8_def)

lemma sha256_of_str_Inl:
  "list_ex is_surrogate s \<Longrightarrow> sha256_of_str s = Inl UnicodeEncodeError"
  by (simp add: sha256_of_str_def encode_utf8_def)

lemma create_link_returns:
  assumes "serialize_data lib d = Inr s" "\<not> list_ex is_surrogate s"
  shows "create_link lib now d md =
     Inr \<lparr>data_hash = str_lit (sha256_hexdigest (utf8_bytes s)),
          chain_hash = str_lit (sha256_hexdigest
            (utf8_bytes (s @ str_lit ''||'' @ ROOT_HASH @ str_lit ''||'' @ CID))),
          root_hash = ROOT_HASH, cid = CID, timestamp = now @ str_lit ''Z'',
          metadata = dict_set (case md of None \<Rightarrow> [] | Some m \<Rightarrow> m)
            (PyStr (str_lit ''created_at'')) (PyStr (now @ str_lit ''Z''))\<rparr>"
proof -
  have "\<not> list_ex is_surrogate (s @ str_lit ''||'' @ ROOT_HASH @ str_lit ''||'' @ CID)"
    using assms(2) anchors_no_surrogate [of s] by blast
  note h = sha256_of_str_Inr [OF assms(2)] sha256_of_str_Inr [OF this]
  show ?thesis
    by (simp only: create_link_def compute_data_hash_def compute_chain_hash_def Let_def
        assms(1) h sum.case)
qed

lemma create_link_encode_error:
  assumes "serialize_data lib d = Inr s" "list_ex is_surrogate s"
  shows "create_link lib now d md = Inl UnicodeEncodeError"
  by (simp only: create_link_def compute_data_hash_def Let_def assms(1)
      sha256_of_str_Inl [OF assms(2)] sum.case)

lemma create_link_serialize_error:
  assumes "serialize_data lib d = Inl e"
  shows "create_link lib now d md = Inl e"
  by (simp only: create_link_def compute_data_hash_def Let_def assms sum.case)

lemma create_link_Inr_iff:
  "(\<exists>l. create_link lib now d md = Inr l)
   \<longleftrightarrow> (\<exists>s. serialize_data lib d = Inr s \<and> \<not> list_ex is_surrogate s)"
proof (cases "serialize_data lib d")
  case (Inl e)
  then show ?thesis using create_link_serialize_error [of lib d e now md] by simp
next
  case (Inr s)
  then show ?thesis
    using create_link_returns [of lib d s now md] create_link_encode_error [of lib d s now md]
    by (cases "list_ex is_surrogate s") simp_all
qed

lemma create_link_chain_hash:
  assumes "create_link lib now d md = Inr l"
  shows "length (chain_hash l) = 64" "\<forall>c\<in>set (chain_hash l). c < 0x80"
proof -
  from assms obtain s where s: "serialize_data lib d = Inr s" "\<not> list_ex is_surrogate s"
    using create_link_Inr_iff [of lib now d md] by blast
  from create_link_returns [OF s, of now md] assms
  have c: "chain_hash l = str_lit (sha256_hexdigest
            (utf8_bytes (s @ str_lit ''||'' @ ROOT_HASH @ str_lit ''||'' @ CID)))"
    by auto
  show "length (chain_hash l) = 64"
    unfolding c by (simp add: str_lit_def length_sha256_hexdigest)
  show "\<forall>c\<in>set (chain_hash l). c < 0x80"
    unfolding c using sha256_hexdigest_ascii by blast
qed

subsection \<open>The root of a list of links\<close>

lemma concat_same_length_inj:
  assumes "\<forall>x\<in>set xs. length x = n" "\<forall>y\<in>set ys. length y = n"
    "length xs = length ys" "concat xs = concat ys"
  shows "xs = ys"
proof -
  have "\<forall>(x, y)\<in>set (zip xs ys). length x = length y"
    using assms(1,2) by (metis (mono_tags, lifting) case_prodI2 set_zip_leftD set_zip_rightD)
  then show ?thesis using assms(3,4) by (simp add: concat_eq_concat_iff)
qed

lemma surrogate_concat:
  "list_ex is_surrogate (concat (map chain_hash links))
   \<longleftrightarrow> (\<exists>l\<in>set links. list_ex is_surrogate (chain_hash l))"
  by (auto simp: list_ex_iff)

lemma merkle_root_returns:
  assumes "links \<noteq> []" "\<not> (\<exists>l\<in>set links. list_ex is_surrogate (chain_hash l))"
  shows "create_merkle_root links
     = Inr (str_lit (sha256_hexdigest (utf8_bytes (concat (map chain_hash links)))))"
proof -
  have "\<not> list_ex is_surrogate (concat (map chain_hash links))"
    using assms(2) surrogate_concat [of links] by blast
  then show ?thesis
    using assms(1) by (simp add: create_merkle_root_def sha256_of_str_Inr)
qed

lemma merkle_root_raises:
  assumes "\<exists>l\<in>set links. list_ex is_surrogate (chain_hash l)"
  shows "create_merkle_root links = Inl UnicodeEncodeError"
proof -
  have "list_ex is_surrogate (concat (map chain_hash links))"
    using assms surrogate_concat [of links] by blast
  moreover have "links \<noteq> []" using assms by auto
  ultimately show ?thesis by (simp add: create_merkle_root_def sha256_of_str_Inl)
qed

text \<open>
  Chain hashes of different lengths can hide an exchange: the concatenation of \<open>ab\<close> and
  \<open>abab\<close> is that of \<open>abab\<close> and \<open>ab\<close>. No link made by \<open>create_link\<close> is of this kind
  (lemma \<open>create_link_chain_hash\<close>), but a link is a plain record and can hold any text.
\<close>

lemma merkle_root_ambiguous:
  "map chain_hash
     [\<lparr>data_hash = [], chain_hash = str_lit ''abab'', root_hash = ROOT_HASH, cid = CID,
       timestamp = [], metadata = []\<rparr>,
      \<lparr>data_hash = [], chain_hash = str_lit ''ab'', root_hash = ROOT_HASH, cid = CID,
       timestamp = [], metadata = []\<rparr>]
   \<noteq> map chain_hash
     [\<lparr>data_hash = [], chain_hash = str_lit ''ab'', root_hash = ROOT_HASH, cid = CID,
       timestamp = [], metadata = []\<rparr>,
      \<lparr>data_hash = [], chain_hash = str_lit ''abab'', root_hash = ROOT_HASH, cid = CID,
       timestamp = [], metadata = []\<rparr>]
   \<and> create_merkle_root
     [\<lparr>data_hash = [], chain_hash = str_lit ''abab'', root_hash = ROOT_HASH, cid = CID,
       timestamp = [], metadata = []\<rparr>,
      \<lparr>data_hash = [], chain_hash = str_lit ''ab'', root_hash = ROOT_HASH, cid = CID,
       timestamp = [], metadata = []\<rparr>]
   = create_merkle_root
     [\<lparr>data_hash = [], chain_hash = str_lit ''ab'', root_hash = ROOT_HASH, cid = CID,
       timestamp = [], metadata = []\<rparr>,
      \<lparr>data_hash = [], chain_hash = str_lit ''abab'', root_hash = ROOT_HASH, cid = CID,
       timestamp = [], metadata = []\<rparr>]"
  by (simp add: create_merkle_root_def str_lit_def)

subsection \<open>The claims on the chain\<close>




text \<open>
  Claim C5. The claim: every permutation of a list of links other than the identity
  changes the root. It fails: two links made from the same data at different times
  differ, yet have the same \<open>chain_hash\<close>, and exchanging them leaves the root as it was.
\<close>

theorem C5_merkle_root_counterexample:
  "\<forall>lib. \<exists>a b r.
     create_link lib (str_lit ''2024-01-01T00:00:00'') (PyStr (str_lit ''evidence'')) None = Inr a
     \<and> create_link lib (str_lit ''2024-01-02T00:00:00'') (PyStr (str_lit ''evidence'')) None = Inr b
     \<and> [b, a] \<noteq> [a, b]
     \<and> mset [b, a] = mset [a, b]
     \<and> create_merkle_root [a, b] = Inr r
     \<and> create_merkle_root [b, a] = Inr r"
proof
  fix lib
  let ?d = "PyStr (str_lit ''evidence'')"
  have s: "serialize_data lib ?d = Inr (str_lit ''evidence'')" by simp
  have n: "\<not> list_ex is_surrogate (str_lit ''evidence'')" by (rule str_lit_no_surrogate)
  note a = create_link_returns [OF s n, of "str_lit ''2024-01-01T00:00:00''" None]
  note b = create_link_returns [OF s n, of "str_lit ''2024-01-02T00:00:00''" None]
  let ?h = "str_lit (sha256_hexdigest (utf8_bytes
      (str_lit ''evidence'' @ str_lit ''||'' @ ROOT_HASH @ str_lit ''||'' @ CID)))"
  let ?a = "\<lparr>data_hash = str_lit (sha256_hexdigest (utf8_bytes (str_lit ''evidence''))),
      chain_hash = ?h, root_hash = ROOT_HASH, cid = CID,
      timestamp = str_lit ''2024-01-01T00:00:00'' @ str_lit ''Z'',
      metadata = dict_set (case None of None \<Rightarrow> [] | Some m \<Rightarrow> m)
        (PyStr (str_lit ''created_at''))
        (PyStr (str_lit ''2024-01-01T00:00:00'' @ str_lit ''Z''))\<rparr>"
  let ?b = "\<lparr>data_hash = str_lit (sha256_hexdigest (utf8_bytes (str_lit ''evidence''))),
      chain_hash = ?h, root_hash = ROOT_HASH, cid = CID,
      timestamp = str_lit ''2024-01-02T00:00:00'' @ str_lit ''Z'',
      metadata = dict_set (case None of None \<Rightarrow> [] | Some m \<Rightarrow> m)
        (PyStr (str_lit ''created_at''))
        (PyStr (str_lit ''2024-01-02T00:00:00'' @ str_lit ''Z''))\<rparr>"
  have d: "[?b, ?a] \<noteq> [?a, ?b]" by (simp add: str_lit_def)
  have m: "mset [?b, ?a] = mset [?a, ?b]" by (simp add: add_mset_commute)
  have ns: "\<not> list_ex is_surrogate ?h" by (rule str_lit_no_surrogate)
  have r1: "create_merkle_root [?a, ?b] = Inr (str_lit (sha256_hexdigest (utf8_bytes (?h @ ?h))))"
    using ns by (simp add: create_merkle_root_def sha256_of_str_Inr)
  have r2: "create_merkle_root [?b, ?a] = Inr (str_lit (sha256_hexdigest (utf8_bytes (?h @ ?h))))"
    using ns by (simp add: create_merkle_root_def sha256_of_str_Inr)
  from a b d m r1 r2
  show "\<exists>a b r.
     create_link lib (str_lit ''2024-01-01T00:00:00'') (PyStr (str_lit ''evidence'')) None = Inr a
     \<and> create_link lib (str_lit ''2024-01-02T00:00:00'') (PyStr (str_lit ''evidence'')) None = Inr b
     \<and> [b, a] \<noteq> [a, b]
     \<and> mset [b, a] = mset [a, b]
     \<and> create_merkle_root [a, b] = Inr r
     \<and> create_merkle_root [b, a] = Inr r"
    by blast
qed

text \<open>
  Claim C5, amended. The root is the single SHA-256 of the concatenation of the
  \<open>chain_hash\<close> values in input order, and it is sensitive to the order of those values.
  Take a list of links whose \<open>chain_hash\<close> texts have one length, as have all links that
  \<open>create_link\<close> returns (64 hexadecimal digits, lemma \<open>create_link_chain_hash\<close>), and a
  permutation of it.
  \<^item> If the permutation leaves the sequence of \<open>chain_hash\<close> values as it is, the root is
    the same.
  \<^item> If it changes the sequence, the two calls hash different messages. When a
    \<open>chain_hash\<close> holds a surrogate both calls raise \<open>UnicodeEncodeError\<close>; otherwise
    both return, each the digest of its message, and the two roots differ unless SHA-256
    gives these two different messages the same digest.

  The texts of a link are Python strings: their code points are below 0x110000.
\<close>

theorem C5_merkle_root_order:
  assumes "mset links' = mset links"
    and "\<forall>l\<in>set links. length (chain_hash l) = n \<and> list_all is_code_point (chain_hash l)"
  shows
    "(map chain_hash links' = map chain_hash links
        \<longrightarrow> create_merkle_root links' = create_merkle_root links)
     \<and> (map chain_hash links' \<noteq> map chain_hash links
        \<longrightarrow> (let m = utf8_bytes (concat (map chain_hash links));
                 m' = utf8_bytes (concat (map chain_hash links'))
             in m' \<noteq> m
                \<and> (if \<exists>l\<in>set links. list_ex is_surrogate (chain_hash l)
                   then create_merkle_root links = Inl UnicodeEncodeError
                        \<and> create_merkle_root links' = Inl UnicodeEncodeError
                   else create_merkle_root links = Inr (str_lit (sha256_hexdigest m))
                        \<and> create_merkle_root links' = Inr (str_lit (sha256_hexdigest m'))
                        \<and> (create_merkle_root links' \<noteq> create_merkle_root links
                             \<longleftrightarrow> sha256_hexdigest m' \<noteq> sha256_hexdigest m))))"
proof (intro conjI impI)
  assume e: "map chain_hash links' = map chain_hash links"
  then have "length (map chain_hash links') = length (map chain_hash links)" by simp
  then have "links' = [] \<longleftrightarrow> links = []" by auto
  with e show "create_merkle_root links' = create_merkle_root links"
    by (simp add: create_merkle_root_def)
next
  assume d: "map chain_hash links' \<noteq> map chain_hash links"
  let ?m = "utf8_bytes (concat (map chain_hash links))"
  let ?m' = "utf8_bytes (concat (map chain_hash links'))"
  have set_eq: "set links' = set links" using assms(1) by (rule mset_eq_setD)
  have len: "length links' = length links" using assms(1) by (rule mset_eq_length)
  have ne: "links \<noteq> []" "links' \<noteq> []" using d len by auto
  have c: "concat (map chain_hash links') \<noteq> concat (map chain_hash links)"
  proof
    assume "concat (map chain_hash links') = concat (map chain_hash links)"
    moreover have "\<forall>x\<in>set (map chain_hash links'). length x = n"
      using assms(2) set_eq by simp
    moreover have "\<forall>x\<in>set (map chain_hash links). length x = n"
      using assms(2) by simp
    moreover have "length (map chain_hash links') = length (map chain_hash links)"
      using len by simp
    ultimately have "map chain_hash links' = map chain_hash links"
      using concat_same_length_inj by blast
    with d show False by contradiction
  qed
  have cp: "list_all is_code_point (concat (map chain_hash ls))" if "set ls = set links" for ls
    using assms(2) that by (auto simp: list_all_iff)
  have m: "?m' \<noteq> ?m"
    using utf8_bytes_inj [OF cp [OF set_eq] cp [OF refl]] c by blast
  have r: "(if \<exists>l\<in>set links. list_ex is_surrogate (chain_hash l)
            then create_merkle_root links = Inl UnicodeEncodeError
                 \<and> create_merkle_root links' = Inl UnicodeEncodeError
            else create_merkle_root links = Inr (str_lit (sha256_hexdigest ?m))
                 \<and> create_merkle_root links' = Inr (str_lit (sha256_hexdigest ?m'))
                 \<and> (create_merkle_root links' \<noteq> create_merkle_root links
                      \<longleftrightarrow> sha256_hexdigest ?m' \<noteq> sha256_hexdigest ?m))"
  proof (cases "\<exists>l\<in>set links. list_ex is_surrogate (chain_hash l)")
    case True
    then have "\<exists>l\<in>set links'. list_ex is_surrogate (chain_hash l)" using set_eq by simp
    with True show ?thesis by (simp add: merkle_root_raises)
  next
    case False
    then have "\<not> (\<exists>l\<in>set links'. list_ex is_surrogate (chain_hash l))" using set_eq by simp
    with False ne show ?thesis by (simp add: merkle_root_returns str_lit_inj)
  qed
  from m r show "let m = ?m; m' = ?m' in m' \<noteq> m
                \<and> (if \<exists>l\<in>set links. list_ex is_surrogate (chain_hash l)
                   then create_merkle_root links = Inl UnicodeEncodeError
                        \<and> create_merkle_root links' = Inl UnicodeEncodeError
                   else create_merkle_root links = Inr (str_lit (sha256_hexdigest m))
                        \<and> create_merkle_root links' = Inr (str_lit (sha256_hexdigest m'))
                        \<and> (create_merkle_root links' \<noteq> create_merkle_root links
                             \<longleftrightarrow> sha256_hexdigest m' \<noteq> sha256_hexdigest m))"
    unfolding Let_def by (rule conjI)
qed

theorem C5_merkle_root_order_witness:
  "mset [\<lparr>data_hash = str_lit ''d1'', chain_hash = str_lit ''a'', root_hash = ROOT_HASH,
           cid = CID, timestamp = str_lit ''t1'', metadata = []\<rparr>,
         \<lparr>data_hash = str_lit ''d3'', chain_hash = str_lit ''c'', root_hash = ROOT_HASH,
           cid = CID, timestamp = str_lit ''t3'', metadata = []\<rparr>,
         \<lparr>data_hash = str_lit ''d2'', chain_hash = str_lit ''b'', root_hash = ROOT_HASH,
           cid = CID, timestamp = str_lit ''t2'', metadata = []\<rparr>]
   = mset [\<lparr>data_hash = str_lit ''d1'', chain_hash = str_lit ''a'', root_hash = ROOT_HASH,
             cid = CID, timestamp = str_lit ''t1'', metadata = []\<rparr>,
           \<lparr>data_hash = str_lit ''d2'', chain_hash = str_lit ''b'', root_hash = ROOT_HASH,
             cid = CID, timestamp = str_lit ''t2'', metadata = []\<rparr>,
           \<lparr>data_hash = str_lit ''d3'', chain_hash = str_lit ''c'', root_hash = ROOT_HASH,
             cid = CID, timestamp = str_lit ''t3'', metadata = []\<rparr>]
   \<and> create_merkle_root
        [\<lparr>data_hash = str_lit ''d1'', chain_hash = str_lit ''a'', root_hash = ROOT_HASH,
           cid = CID, timestamp = str_lit ''t1'', metadata = []\<rparr>,
         \<lparr>data_hash = str_lit ''d2'', chain_hash = str_lit ''b'', root_hash = ROOT_HASH,
           cid = CID, timestamp = str_lit ''t2'', metadata = []\<rparr>,
         \<lparr>data_hash = str_lit ''d3'', chain_hash = str_lit ''c'', root_hash = ROOT_HASH,
           cid = CID, timestamp = str_lit ''t3'', metadata = []\<rparr>]
     = Inr (str_lit ''ba7816bf8f01cfea414140de5dae2223b00361a396177a9cb410ff61f20015ad'')
   \<and> create_merkle_root
        [\<lparr>data_hash = str_lit ''d1'', chain_hash = str_lit ''a'', root_hash = ROOT_HASH,
           cid = CID, timestamp = str_lit ''t1'', metadata = []\<rparr>,
         \<lparr>data_hash = str_lit ''d3'', chain_hash = str_lit ''c'', root_hash = ROOT_HASH,
           cid = CID, timestamp = str_lit ''t3'', metadata = []\<rparr>,
         \<lparr>data_hash = str_lit ''d2'', chain_hash = str_lit ''b'', root_hash = ROOT_HASH,
           cid = CID, timestamp = str_lit ''t2'', metadata = []\<rparr>]
     = Inr (str_lit ''8e9766083b3bfc2003f791c9853941b0ea035d16379bfec16b72d376e272fa57'')
   \<and> create_merkle_root
        [\<lparr>data_hash = str_lit ''d1'', chain_hash = str_lit ''a'', root_hash = ROOT_HASH,
           cid = CID, timestamp = str_lit ''t1'', metadata = []\<rparr>,
         \<lparr>data_hash = str_lit ''d3'', chain_hash = str_lit ''c'', root_hash = ROOT_HASH,
           cid = CID, timestamp = str_lit ''t3'', metadata = []\<rparr>,
         \<lparr>data_hash = str_lit ''d2'', chain_hash = str_lit ''b'', root_hash = ROOT_HASH,
           cid = CID, timestamp = str_lit ''t2'', metadata = []\<rparr>]
     \<noteq> create_merkle_root
        [\<lparr>data_hash = str_lit ''d1'', chain_hash = str_lit ''a'', root_hash = ROOT_HASH,
           cid = CID, timestamp = str_lit ''t1'', metadata = []\<rparr>,
         \<lparr>data_hash = str_lit ''d2'', chain_hash = str_lit ''b'', root_hash = ROOT_HASH,
           cid = CID, timestamp = str_lit ''t2'', metadata = []\<rparr>,
         \<lparr>data_hash = str_lit ''d3'', chain_hash = str_lit ''c'', root_hash = ROOT_HASH,
           cid = CID, timestamp = str_lit ''t3'', metadata = []\<rparr>]"
proof -
  let ?a = "\<lparr>data_hash = str_lit ''d1'', chain_hash = str_lit ''a'', root_hash = ROOT_HASH,
             cid = CID, timestamp = str_lit ''t1'', metadata = []\<rparr>"
  let ?b = "\<lparr>data_hash = str_lit ''d2'', chain_hash = str_lit ''b'', root_hash = ROOT_HASH,
             cid = CID, timestamp = str_lit ''t2'', metadata = []\<rparr>"
  let ?c = "\<lparr>data_hash = str_lit ''d3'', chain_hash = str_lit ''c'', root_hash = ROOT_HASH,
             cid = CID, timestamp = str_lit ''t3'', metadata = []\<rparr>"
  have m: "mset [?a, ?c, ?b] = mset [?a, ?b, ?c]" by (simp add: add_mset_commute)
  have h: "\<forall>l\<in>set [?a, ?b, ?c].
      length (chain_hash l) = 1 \<and> list_all is_code_point (chain_hash l)"
    by (simp add: str_lit_def is_code_point_def)
  have d: "map chain_hash [?a, ?c, ?b] \<noteq> map chain_hash [?a, ?b, ?c]"
    by (simp add: str_lit_def)
  have ns: "\<not> (\<exists>l\<in>set [?a, ?b, ?c]. list_ex is_surrogate (chain_hash l))"
    by (simp add: str_lit_no_surrogate)
  have b: "utf8_bytes (concat (map chain_hash [?a, ?b, ?c])) = [0x61, 0x62, 0x63]"
    "utf8_bytes (concat (map chain_hash [?a, ?c, ?b])) = [0x61, 0x63, 0x62]"
    by (simp_all add: utf8_bytes_def utf8_units_def str_lit_def)
  from C5_merkle_root_order [OF m h] d
  have "(if \<exists>l\<in>set [?a, ?b, ?c]. list_ex is_surrogate (chain_hash l)
         then create_merkle_root [?a, ?b, ?c] = Inl UnicodeEncodeError
              \<and> create_merkle_root [?a, ?c, ?b] = Inl UnicodeEncodeError
         else create_merkle_root [?a, ?b, ?c]
                = Inr (str_lit (sha256_hexdigest
                    (utf8_bytes (concat (map chain_hash [?a, ?b, ?c])))))
              \<and> create_merkle_root [?a, ?c, ?b]
                  = Inr (str_lit (sha256_hexdigest
                      (utf8_bytes (concat (map chain_hash [?a, ?c, ?b])))))
              \<and> (create_merkle_root [?a, ?c, ?b] \<noteq> create_merkle_root [?a, ?b, ?c]
                   \<longleftrightarrow> sha256_hexdigest (utf8_bytes (concat (map chain_hash [?a, ?c, ?b])))
                       \<noteq> sha256_hexdigest (utf8_bytes (concat (map chain_hash [?a, ?b, ?c])))))"
    unfolding Let_def by blast
  with ns have "create_merkle_root [?a, ?b, ?c]
                = Inr (str_lit (sha256_hexdigest
                    (utf8_bytes (concat (map chain_hash [?a, ?b, ?c])))))
              \<and> create_merkle_root [?a, ?c, ?b]
                  = Inr (str_lit (sha256_hexdigest
                      (utf8_bytes (concat (map chain_hash [?a, ?c, ?b])))))"
    by (simp only: if_False)
  then have r: "create_merkle_root [?a, ?b, ?c]
       = Inr (str_lit ''ba7816bf8f01cfea414140de5dae2223b00361a396177a9cb410ff61f20015ad'')
     \<and> create_merkle_root [?a, ?c, ?b]
       = Inr (str_lit ''8e9766083b3bfc2003f791c9853941b0ea035d16379bfec16b72d376e272fa57'')"
    by (simp only: b sha256_abc sha256_acb)
  then have "create_merkle_root [?a, ?c, ?b] \<noteq> create_merkle_root [?a, ?b, ?c]"
    by (simp add: str_lit_inj)
  with m r show ?thesis by blast
qed

text \<open>
  Claim C9. The result of \<open>verify_link\<close> does not depend on the timestamp and the
  metadata of the link: two links that agree on \<open>data_hash\<close>, \<open>chain_hash\<close>,
  \<open>root_hash\<close> and \<open>cid\<close> verify alike on the same data.
\<close>

theorem C9_verify_ignores_timestamp_metadata:
  assumes "data_hash l' = data_hash l" and "chain_hash l' = chain_hash l"
    and "root_hash l' = root_hash l" and "cid l' = cid l"
  shows "verify_link lib d l' = verify_link lib d l"
  unfolding verify_link_def assms by (rule refl)

text \<open>A link verifies on the data it was made from, and still does with both fields forged.\<close>

lemma verify_link_create:
  assumes "create_link lib now d md = Inr l"
  shows "verify_link lib d l = Inr True"
proof -
  from assms obtain s where s: "serialize_data lib d = Inr s" "\<not> list_ex is_surrogate s"
    using create_link_Inr_iff [of lib now d md] by blast
  have n: "\<not> list_ex is_surrogate (s @ str_lit ''||'' @ ROOT_HASH @ str_lit ''||'' @ CID)"
    using s(2) anchors_no_surrogate [of s] by blast
  from create_link_returns [OF s, of now md] assms
  have l: "l = \<lparr>data_hash = str_lit (sha256_hexdigest (utf8_bytes s)),
          chain_hash = str_lit (sha256_hexdigest
            (utf8_bytes (s @ str_lit ''||'' @ ROOT_HASH @ str_lit ''||'' @ CID))),
          root_hash = ROOT_HASH, cid = CID, timestamp = now @ str_lit ''Z'',
          metadata = dict_set (case md of None \<Rightarrow> [] | Some m \<Rightarrow> m)
            (PyStr (str_lit ''created_at'')) (PyStr (now @ str_lit ''Z''))\<rparr>"
    by simp
  show ?thesis
    unfolding l
    by (simp add: verify_link_def compute_data_hash_def compute_chain_hash_def s(1)
        sha256_of_str_Inr [OF s(2)] sha256_of_str_Inr [OF n])
qed

theorem C9_verify_ignores_timestamp_metadata_witness:
  "\<forall>lib. \<exists>l.
     create_link lib (str_lit ''2024-01-01T00:00:00'') (PyStr (str_lit ''evidence'')) None = Inr l
     \<and> verify_link lib (PyStr (str_lit ''evidence''))
         (l\<lparr>timestamp := str_lit ''1999-12-31T23:59:59Z'',
            metadata := [(PyStr (str_lit ''forged''), PyBool True)]\<rparr>)
       = verify_link lib (PyStr (str_lit ''evidence'')) l
     \<and> verify_link lib (PyStr (str_lit ''evidence''))
         (l\<lparr>timestamp := str_lit ''1999-12-31T23:59:59Z'',
            metadata := [(PyStr (str_lit ''forged''), PyBool True)]\<rparr>)
       = Inr True"
proof
  fix lib
  have "\<exists>s. serialize_data lib (PyStr (str_lit ''evidence'')) = Inr s \<and> \<not> list_ex is_surrogate s"
    by (simp add: str_lit_no_surrogate)
  then obtain l where
    l: "create_link lib (str_lit ''2024-01-01T00:00:00'') (PyStr (str_lit ''evidence'')) None = Inr l"
    using create_link_Inr_iff [of lib _ "PyStr (str_lit ''evidence'')" None] by blast
  let ?f = "l\<lparr>timestamp := str_lit ''1999-12-31T23:59:59Z'',
               metadata := [(PyStr (str_lit ''forged''), PyBool True)]\<rparr>"
  have "verify_link lib (PyStr (str_lit ''evidence'')) ?f
        = verify_link lib (PyStr (str_lit ''evidence'')) l"
    by (rule C9_verify_ignores_timestamp_metadata) simp_all
  moreover have "verify_link lib (PyStr (str_lit ''evidence'')) l = Inr True"
    using l by (rule verify_link_create)
  ultimately show "\<exists>l.
     create_link lib (str_lit ''2024-01-01T00:00:00'') (PyStr (str_lit ''evidence'')) None = Inr l
     \<and> verify_link lib (PyStr (str_lit ''evidence''))
         (l\<lparr>timestamp := str_lit ''1999-12-31T23:59:59Z'',
            metadata := [(PyStr (str_lit ''forged''), PyBool True)]\<rparr>)
       = verify_link lib (PyStr (str_lit ''evidence'')) l
     \<and> verify_link lib (PyStr (str_lit ''evidence''))
         (l\<lparr>timestamp := str_lit ''1999-12-31T23:59:59Z'',
            metadata := [(PyStr (str_lit ''forged''), PyBool True)]\<rparr>)
       = Inr True"
    using l by auto
qed

section \<open>Properties of the temporal analysis\<close>

lemma batch_monitor_from_length:
  "batch_monitor_from clock i logs = Inr rs \<Longrightarrow> length rs = length logs"
  by (induction logs arbitrary: i rs) (auto split: sum.splits)

text \<open>
  \<open>analyze_period\<close> returns whenever no log has two responses without a token.
\<close>

lemma batch_monitor_from_returns:
  assumes "\<forall>l \<in> set logs. analyzer (log_response_origin l) \<noteq> []
                           \<or> analyzer (log_response_control l) \<noteq> []"
  shows "\<exists>rs. batch_monitor_from clock i logs = Inr rs"
  using assms
proof (induction logs arbitrary: i)
  case Nil
  then show ?case by simp
next
  case (Cons l logs)
  from Cons.prems obtain r where
    "calculate (log_response_origin l) (log_response_control l) = Inr r"
    using calculate_returns by fastforce
  moreover from Cons obtain rs where "batch_monitor_from clock (Suc i) logs = Inr rs"
    by fastforce
  ultimately show ?case
    by (simp add: monitor_log_def monitor_interaction_def)
qed

lemma analyze_period_returns:
  assumes "\<forall>l \<in> set logs. analyzer (log_response_origin l) \<noteq> []
                           \<or> analyzer (log_response_control l) \<noteq> []"
  shows "\<exists>m. analyze_period clock logs = Inr m"
proof (cases "logs = []")
  case True
  then show ?thesis by (simp add: analyze_period_def)
next
  case False
  from batch_monitor_from_returns [OF assms] obtain rs where
    rs: "batch_monitor clock logs = Inr rs"
    unfolding batch_monitor_def by blast
  then have len: "length rs = length logs"
    by (simp add: batch_monitor_def batch_monitor_from_length)
  with False have ne: "rs \<noteq> []" by auto
  have "\<exists>s. calculate_trend_slope (map (\<lambda>r. I_D (degradation r)) rs) (map mr_timestamp rs)
          = Inr s"
    using ne by (simp add: calculate_trend_slope_def Let_def)
  then obtain s where "calculate_trend_slope (map (\<lambda>r. I_D (degradation r)) rs)
     (map mr_timestamp rs) = Inr s" by blast
  with rs False show ?thesis by (simp add: analyze_period_def Let_def)
qed

lemma assess_cases:
  "assess_thermal_death_risk m s r =
     (let n = length (filter id [m \<ge> 35 / 100, s > 15 / 100, r > 5 / 10])
      in if n = 3 then ''CRITICAL'' else if n = 2 then ''HIGH''
         else if n = 1 then ''MEDIUM'' else ''LOW'')"
  by (simp add: assess_thermal_death_risk_def MODERATE_THRESHOLD_def Let_def)

text \<open>
  Three logs monitored one day apart: a stable one, then two whose control shares no term
  with the origin.
\<close>

lemma analyze_example:
  "analyze_period (\<lambda>i. int i * 86400000000)
     [\<lparr>log_session_id = ''s1'', log_timestamp = ''2024-01-01T00:00:00Z'', log_prompt = ''p'',
       log_response_origin = ''ab'', log_response_control = ''ab'', log_metadata = [],
       log_root_hash = ROOT_HASH, log_session_hash = ''h1''\<rparr>,
      \<lparr>log_session_id = ''s2'', log_timestamp = ''2024-01-02T00:00:00Z'', log_prompt = ''p'',
       log_response_origin = ''La invarianza es un principio'',
       log_response_control = ''Prefiero no opinar'', log_metadata = [],
       log_root_hash = ROOT_HASH, log_session_hash = ''h2''\<rparr>,
      \<lparr>log_session_id = ''s3'', log_timestamp = ''2024-01-03T00:00:00Z'', log_prompt = ''p'',
       log_response_origin = ''La invarianza es un principio'',
       log_response_control = ''Prefiero no opinar'', log_metadata = [],
       log_root_hash = ROOT_HASH, log_session_hash = ''h3''\<rparr>]
   = Inr \<lparr>period_start = At 0, period_end = At 172800000000, total_interactions = 3,
          mean_I_D = 2 / 3, std_I_D = sqrt (1 / 3), trend_slope = 1 / 2,
          trend_direction = ''INCREASING'', interventions_count = 2,
          thermal_death_risk = ''CRITICAL''\<rparr>"
  by (simp add: analyze_period_def batch_monitor_def monitor_log_def monitor_interaction_def
        calculate_ab calculate_critica Monitor_CRITICAL_THRESHOLD_def Monitor_HIGH_THRESHOLD_def
        Monitor_MEDIUM_THRESHOLD_def determine_severity_def mean_def stdev_def
        calculate_trend_slope_def determine_trend_direction_def STABLE_THRESHOLD_def
        assess_thermal_death_risk_def MODERATE_THRESHOLD_def Let_def power2_eq_square)

text \<open>
  Claim C7. For every non-empty sequence of logs on which \<open>analyze_period\<close> returns, the
  risk rating is a score of three factors, one point each for \<open>mean_I_D \<ge> 0.35\<close>, a
  trend slope above 0.15 and an intervention rate above 0.5: \<open>CRITICAL\<close> exactly when
  all three hold, \<open>HIGH\<close> exactly when two hold, \<open>MEDIUM\<close> exactly when one holds and
  \<open>LOW\<close> exactly when none holds.
\<close>

theorem C7_risk_rating:
  assumes "logs \<noteq> []" and "analyze_period clock logs = Inr m"
  shows "(let n = length (filter id
                   [mean_I_D m \<ge> 35 / 100,
                    trend_slope m > 15 / 100,
                    real (interventions_count m) / real (total_interactions m) > 5 / 10])
          in (thermal_death_risk m = ''CRITICAL'' \<longleftrightarrow> n = 3)
           \<and> (thermal_death_risk m = ''HIGH'' \<longleftrightarrow> n = 2)
           \<and> (thermal_death_risk m = ''MEDIUM'' \<longleftrightarrow> n = 1)
           \<and> (thermal_death_risk m = ''LOW'' \<longleftrightarrow> n = 0))"
proof -
  from assms obtain results slope where
    b: "batch_monitor clock logs = Inr results"
    and s: "calculate_trend_slope (map (\<lambda>r. I_D (degradation r)) results)
              (map mr_timestamp results) = Inr slope"
    by (auto simp: analyze_period_def Let_def split: sum.splits)
  from b have len: "length results = length logs"
    by (simp add: batch_monitor_def batch_monitor_from_length)
  with assms(1) have ne: "results \<noteq> []" by auto
  define mm where "mm = mean (map (\<lambda>r. I_D (degradation r)) results)"
  define cnt where "cnt = length (filter intervention_detected results)"
  from assms b s ne len have
    f: "mean_I_D m = mm" "trend_slope m = slope" "interventions_count m = cnt"
      "total_interactions m = length results"
      "thermal_death_risk m
         = assess_thermal_death_risk mm slope (real cnt / real (length results))"
    by (auto simp: analyze_period_def Let_def mm_def cnt_def)
  show ?thesis
    unfolding f assess_cases by (simp add: Let_def)
qed

theorem C7_risk_rating_witness:
  "(let logs =
      [\<lparr>log_session_id = ''s1'', log_timestamp = ''2024-01-01T00:00:00Z'', log_prompt = ''p'',
        log_response_origin = ''ab'', log_response_control = ''ab'', log_metadata = [],
        log_root_hash = ROOT_HASH, log_session_hash = ''h1''\<rparr>,
       \<lparr>log_session_id = ''s2'', log_timestamp = ''2024-01-02T00:00:00Z'', log_prompt = ''p'',
        log_response_origin = ''La invarianza es un principio'',
        log_response_control = ''Prefiero no opinar'', log_metadata = [],
        log_root_hash = ROOT_HASH, log_session_hash = ''h2''\<rparr>,
       \<lparr>log_session_id = ''s3'', log_timestamp = ''2024-01-03T00:00:00Z'', log_prompt = ''p'',
        log_response_origin = ''La invarianza es un principio'',
        log_response_control = ''Prefiero no opinar'', log_metadata = [],
        log_root_hash = ROOT_HASH, log_session_hash = ''h3''\<rparr>];
       m = \<lparr>period_start = At 0, period_end = At 172800000000, total_interactions = 3,
            mean_I_D = 2 / 3, std_I_D = sqrt (1 / 3), trend_slope = 1 / 2,
            trend_direction = ''INCREASING'', interventions_count = 2,
            thermal_death_risk = ''CRITICAL''\<rparr>
    in logs \<noteq> []
       \<and> analyze_period (\<lambda>i. int i * 86400000000) logs = Inr m
       \<and> thermal_death_risk m = ''CRITICAL''
       \<and> length (filter id
            [mean_I_D m \<ge> 35 / 100,
             trend_slope m > 15 / 100,
             real (interventions_count m) / real (total_interactions m) > 5 / 10]) = 3)"
  using C7_risk_rating [OF _ analyze_example] analyze_example by (simp add: Let_def)

section \<open>Properties of the truth invariance validator\<close>

lemma comparison_Inl:
  assumes "max_features vs = 1000" "fit_transform vs a b = Inl e"
  shows "comparison a b = Inl e"
  using assms
  by (auto simp: comparison_def fit_transform_def SemanticVectorSpace_init_def Let_def
      split: sum.splits prod.splits)

lemma comparison_Inr:
  assumes "max_features vs = 1000" "fit_transform vs a b = Inr (vs', vo, vc)"
  shows "comparison a b = Inr (1 - cosine_similarity vo vc)"
    and "cosine_distance vs' = Inr (1 - cosine_similarity vo vc)"
    and "max_features vs' = 1000"
  using assms
  by (auto simp: comparison_def fit_transform_def SemanticVectorSpace_init_def Let_def
      cosine_distance_def split: sum.splits prod.splits)

text \<open>
  The loop appends the distances of the comparisons that do not raise, in order; the
  space it shares between the iterations does not show in the result.
\<close>

lemma gradient_loop_filter:
  assumes "max_features vs = 1000"
  shows "gradient_loop vs orig perts acc
         = acc @ map (\<lambda>p. projr (comparison orig p))
                   (filter (\<lambda>p. \<not> isl (comparison orig p)) perts)"
  using assms
proof (induction perts arbitrary: vs acc)
  case Nil
  then show ?case by simp
next
  case (Cons p perts)
  show ?case
  proof (cases "fit_transform vs orig p")
    case (Inl e)
    from comparison_Inl [OF Cons.prems Inl] Inl Cons.IH [OF Cons.prems]
    show ?thesis by simp
  next
    case (Inr t)
    obtain vs' vo vc where t: "t = (vs', vo, vc)" by (cases t)
    from comparison_Inr [OF Cons.prems Inr [unfolded t]]
    have c: "comparison orig p = Inr (1 - cosine_similarity vo vc)"
      and d: "cosine_distance vs' = Inr (1 - cosine_similarity vo vc)"
      and m: "max_features vs' = 1000" by simp_all
    from Cons.IH [OF m] Inr t c d show ?thesis by simp
  qed
qed

lemma calculate_gradient_distances:
  "calculate_gradient orig perts =
     (let distances = map (\<lambda>p. projr (comparison orig p))
                        (filter (\<lambda>p. \<not> isl (comparison orig p)) perts)
      in if distances = [] then zero_gradient
         else \<lparr>gd_gradient_magnitude = mean distances,
               gd_mean_distance = mean distances,
               gd_std_distance = np_std distances\<rparr>)"
  using gradient_loop_filter [of "SemanticVectorSpace_init 1000" orig perts "[]"]
  by (simp add: calculate_gradient_def SemanticVectorSpace_init_def Let_def)

lemma comparison_empty: "comparison [] [] = Inl EmptyVocabulary"
  by (simp add: comparison_def fit_transform_def SemanticVectorSpace_init_def
        vectorizer_fit_transform_def analyzer_empty sorted_terms_def)

lemma comparison_empty_a: "comparison [] ''a'' = Inl EmptyVocabulary"
  by (simp add: comparison_def fit_transform_def SemanticVectorSpace_init_def
        vectorizer_fit_transform_def analyzer_empty analyzer_a sorted_terms_def)

lemma comparison_empty_ab: "comparison [] ''ab'' = Inr 1"
  by (simp add: comparison_def fit_transform_def SemanticVectorSpace_init_def
        vectorizer_fit_transform_def analyzer_empty analyzer_ab sorted_terms_empty_ab
        limit_features_def tfidf_row_def normalize_def l2_norm_def cosine_distance_def
        cosine_similarity_def dot_def Let_def)

text \<open>One comparison raises and one does not: the validation goes on with the second.\<close>

lemma validate_invariance_example:
  "validate_invariance [] [[], ''ab''] =
     \<lparr>gradient_magnitude = 1, is_invariant = False, perturbation_responses = [[], ''ab''],
      stability_score = 0, bias_detected = True, mean_distance = 1, std_distance = 0\<rparr>"
  by (simp add: validate_invariance_def calculate_gradient_distances comparison_empty
        comparison_empty_ab mean_def np_std_def INVARIANCE_THRESHOLD_def Let_def)

text \<open>
  Claim C8. A comparison of the base response with a perturbed response that raises is
  skipped: the gradient is that of the perturbed responses whose comparison does not
  raise. When every comparison raises (or there is no perturbed response) the result of
  \<open>validate_invariance\<close> has gradient, mean distance and deviation 0; the function
  returns a result in every case.
\<close>

theorem C8_skipped_comparisons:
  "calculate_gradient original_response perturbed_responses
     = calculate_gradient original_response
         (filter (\<lambda>p. \<not> isl (comparison original_response p)) perturbed_responses)
   \<and> ((\<forall>p \<in> set perturbed_responses. isl (comparison original_response p))
        \<longrightarrow> gradient_magnitude (validate_invariance original_response perturbed_responses) = 0
          \<and> mean_distance (validate_invariance original_response perturbed_responses) = 0
          \<and> std_distance (validate_invariance original_response perturbed_responses) = 0)"
proof -
  have a: "calculate_gradient original_response perturbed_responses
     = calculate_gradient original_response
         (filter (\<lambda>p. \<not> isl (comparison original_response p)) perturbed_responses)"
    by (simp add: calculate_gradient_distances)
  have b: "calculate_gradient original_response perturbed_responses = zero_gradient"
    if "\<forall>p \<in> set perturbed_responses. isl (comparison original_response p)"
  proof -
    from that
    have "filter (\<lambda>p. \<not> isl (comparison original_response p)) perturbed_responses = []"
      by (simp add: filter_empty_conv)
    then show ?thesis by (simp add: calculate_gradient_distances)
  qed
  from a b show ?thesis
    by (simp add: validate_invariance_def zero_gradient_def Let_def)
qed

theorem C8_skipped_comparisons_witness:
  "isl (comparison [] [])
   \<and> isl (comparison [] ''a'')
   \<and> gradient_magnitude (validate_invariance [] [[], ''a'']) = 0
   \<and> mean_distance (validate_invariance [] [[], ''a'']) = 0
   \<and> std_distance (validate_invariance [] [[], ''a'']) = 0"
  using C8_skipped_comparisons [of "[]" "[[], ''a'']"]
  by (simp add: comparison_empty comparison_empty_a)

end
